theory Spec2Isabelle
  imports Main "HOL-Library.Sublist" "HOL-Library.AList"
begin

section \<open>JavaScript values\<close>

text \<open>
  The service of \<^verbatim>\<open>src/index.js\<close> handles untyped JSON documents: the blob of a
  collection is whatever \<^verbatim>\<open>JSON.parse\<close> returns, and a card is the object the request
  carried. A value is therefore one of the JSON kinds, plus \<^verbatim>\<open>undefined\<close> for the
  result of reading a property that is not there. An object is the list of its own
  properties; reading takes the first binding of a key.

  A string of the program is a sequence of UTF-16 code units. It is kept as a character
  list in which every code unit is written as the one to three bytes of its UTF-8 form: a
  unit below 128 is one character, a unit below 2048 two, any other unit three, a
  surrogate like any other unit (so a character outside the basic plane, two units, is two
  groups of three bytes). ASCII text is its own representation, and the Chinese messages of
  the source are their UTF-8 bytes. Two strings are equal exactly when their representations
  are.

  A number is kept as its canonical decimal text (what \<^verbatim>\<open>String(n)\<close> prints), which
  identifies a finite number; the program never computes with numbers, it only tests
  them for truthiness and equality and prints them.
\<close>

datatype jsval =
    JUndefined
  | JNull
  | JBool bool
  | JNum string
  | JStr string
  | JArr "jsval list"
  | JObj "(string \<times> jsval) list"

text \<open>Truthiness, as \<^verbatim>\<open>!v\<close>, \<^verbatim>\<open>v && ...\<close> and \<^verbatim>\<open>if (v)\<close> read it.\<close>

fun truthy :: "jsval \<Rightarrow> bool" where
  "truthy JUndefined = False"
| "truthy JNull = False"
| "truthy (JBool b) = b"
| "truthy (JNum n) = (n \<noteq> ''0'')"
| "truthy (JStr s) = (s \<noteq> [])"
| "truthy (JArr xs) = True"
| "truthy (JObj kvs) = True"

text \<open>
  Strict equality \<^verbatim>\<open>a === b\<close>. Primitives are compared by value. An array or an
  object is equal only to itself as a reference; wherever the program compares, the left
  operand was parsed from the stored blob and the right one came with the request, so the
  two are never the same reference.
\<close>

fun strict_eq :: "jsval \<Rightarrow> jsval \<Rightarrow> bool" where
  "strict_eq (JArr xs) b = False"
| "strict_eq (JObj kvs) b = False"
| "strict_eq a b = (a = b)"

text \<open>
  The two failures the code can end in: the service's own typed failure
  \<^verbatim>\<open>new QslError(message, code, statusCode)\<close>, and the \<^verbatim>\<open>TypeError\<close> the engine raises
  when a property of \<^verbatim>\<open>null\<close> or \<^verbatim>\<open>undefined\<close> is read or a value that is not a function
  is called.
\<close>

datatype error = QslError string int int | TypeError

text \<open>
  Property access \<^verbatim>\<open>v.k\<close>, for the names this program reads (\<^verbatim>\<open>id\<close>, \<^verbatim>\<open>callSign\<close>,
  \<^verbatim>\<open>myCallSign\<close>, \<^verbatim>\<open>date\<close>, \<^verbatim>\<open>mode\<close>, \<^verbatim>\<open>cardType\<close>, \<^verbatim>\<open>status\<close>): none of them is a
  built-in property of a string, number, boolean or array, so on those the result is
  \<^verbatim>\<open>undefined\<close>.
\<close>

fun get_prop :: "jsval \<Rightarrow> string \<Rightarrow> error + jsval" where
  "get_prop JUndefined k = Inl TypeError"
| "get_prop JNull k = Inl TypeError"
| "get_prop (JObj kvs) k = Inr (case map_of kvs k of Some v \<Rightarrow> v | None \<Rightarrow> JUndefined)"
| "get_prop v k = Inr JUndefined"

text \<open>\<^verbatim>\<open>Array.isArray(v)\<close>.\<close>

fun isArray :: "jsval \<Rightarrow> bool" where
  "isArray (JArr xs) = True"
| "isArray v = False"

text \<open>Sequencing of computations that may throw.\<close>

definition bindE :: "error + 'a \<Rightarrow> ('a \<Rightarrow> error + 'b) \<Rightarrow> error + 'b" where
  "bindE m f = (case m of Inl e \<Rightarrow> Inl e | Inr x \<Rightarrow> f x)"

subsection \<open>Strings\<close>

text \<open>
  The code units of a string: a unit is a character that is not a continuation byte, with
  the continuation bytes (\<^verbatim>\<open>0x80\<close> to \<^verbatim>\<open>0xBF\<close>) that follow it.
\<close>

definition is_cont :: "char \<Rightarrow> bool" where
  "is_cont c \<longleftrightarrow> 128 \<le> (of_char c :: nat) \<and> (of_char c :: nat) < 192"

function units :: "string \<Rightarrow> string list" where
  "units [] = []"
| "units (c # cs) = (c # takeWhile is_cont cs) # units (dropWhile is_cont cs)"
  by pat_completeness auto

termination units
  by (relation "measure length") (simp_all add: length_dropWhile_le le_imp_less_Suc)

text \<open>
  The white space and the line terminators of the language, which \<^verbatim>\<open>trim\<close> strips
  from both ends: U+0009 to U+000D, U+0020, U+00A0, U+1680, U+2000 to U+200A, U+2028,
  U+2029, U+202F, U+205F, U+3000 and U+FEFF. Each of them is one code unit.
\<close>

definition white_space :: "string list" where
  "white_space =
     [[CHR 0x09], [CHR 0x0A], [CHR 0x0B], [CHR 0x0C], [CHR 0x0D], [CHR 0x20],
      [CHR 0xC2, CHR 0xA0], [CHR 0xE1, CHR 0x9A, CHR 0x80],
      [CHR 0xE2, CHR 0x80, CHR 0x80], [CHR 0xE2, CHR 0x80, CHR 0x81],
      [CHR 0xE2, CHR 0x80, CHR 0x82], [CHR 0xE2, CHR 0x80, CHR 0x83],
      [CHR 0xE2, CHR 0x80, CHR 0x84], [CHR 0xE2, CHR 0x80, CHR 0x85],
      [CHR 0xE2, CHR 0x80, CHR 0x86], [CHR 0xE2, CHR 0x80, CHR 0x87],
      [CHR 0xE2, CHR 0x80, CHR 0x88], [CHR 0xE2, CHR 0x80, CHR 0x89],
      [CHR 0xE2, CHR 0x80, CHR 0x8A], [CHR 0xE2, CHR 0x80, CHR 0xA8],
      [CHR 0xE2, CHR 0x80, CHR 0xA9], [CHR 0xE2, CHR 0x80, CHR 0xAF],
      [CHR 0xE2, CHR 0x81, CHR 0x9F], [CHR 0xE3, CHR 0x80, CHR 0x80],
      [CHR 0xEF, CHR 0xBB, CHR 0xBF]]"

definition is_space :: "string \<Rightarrow> bool" where
  "is_space u \<longleftrightarrow> u \<in> set white_space"

definition trim :: "string \<Rightarrow> string" where
  "trim s = concat (rev (dropWhile is_space (rev (dropWhile is_space (units s)))))"

text \<open>
  \<^verbatim>\<open>s.substring(a, b)\<close>: the code units from the smaller to the larger of the two
  indices, both cut off at the length of the string.
\<close>

definition substring :: "nat \<Rightarrow> nat \<Rightarrow> string \<Rightarrow> string" where
  "substring a b s = concat (take (max a b - min a b) (drop (min a b) (units s)))"

text \<open>
  The elements that iterating a string yields, as the spread \<^verbatim>\<open>[...s]\<close> does: its
  characters, a high surrogate (U+D800 to U+DBFF) with the low surrogate (U+DC00 to
  U+DFFF) that follows it being one character.
\<close>

definition is_high :: "string \<Rightarrow> bool" where
  "is_high u \<longleftrightarrow>
     length u = 3 \<and> u ! 0 = CHR 0xED
     \<and> 160 \<le> (of_char (u ! 1) :: nat) \<and> (of_char (u ! 1) :: nat) < 176"

definition is_low :: "string \<Rightarrow> bool" where
  "is_low u \<longleftrightarrow>
     length u = 3 \<and> u ! 0 = CHR 0xED
     \<and> 176 \<le> (of_char (u ! 1) :: nat) \<and> (of_char (u ! 1) :: nat) < 192"

fun code_points :: "string list \<Rightarrow> string list" where
  "code_points (h # l # us) =
     (if is_high h \<and> is_low l then (h @ l) # code_points us else h # code_points (l # us))"
| "code_points us = us"

text \<open>
  The case of the ASCII letters. A string of ASCII characters only is converted letter by
  letter; the conversion of any other string is the engine's (see the environment below).
\<close>

definition is_ascii :: "char \<Rightarrow> bool" where
  "is_ascii c \<longleftrightarrow> (of_char c :: nat) < 128"

definition upper_char :: "char \<Rightarrow> char" where
  "upper_char c =
     (case map_of (zip ''abcdefghijklmnopqrstuvwxyz'' ''ABCDEFGHIJKLMNOPQRSTUVWXYZ'') c of
        Some u \<Rightarrow> u | None \<Rightarrow> c)"

definition lower_char :: "char \<Rightarrow> char" where
  "lower_char c =
     (case map_of (zip ''ABCDEFGHIJKLMNOPQRSTUVWXYZ'' ''abcdefghijklmnopqrstuvwxyz'') c of
        Some l \<Rightarrow> l | None \<Rightarrow> c)"

text \<open>\<^verbatim>\<open>xs.join(sep)\<close> on an array of strings.\<close>

fun join :: "string \<Rightarrow> string list \<Rightarrow> string" where
  "join sep [] = []"
| "join sep [x] = x"
| "join sep (x # y # ys) = x @ sep @ join sep (y # ys)"

text \<open>
  \<^verbatim>\<open>String(v)\<close>, as a template literal and \<^verbatim>\<open>RegExp.prototype.test\<close> convert their
  argument. An array prints its elements separated by commas, \<^verbatim>\<open>null\<close> and
  \<^verbatim>\<open>undefined\<close> elements as nothing.
\<close>

fun to_string :: "jsval \<Rightarrow> string" where
  "to_string JUndefined = ''undefined''"
| "to_string JNull = ''null''"
| "to_string (JBool b) = (if b then ''true'' else ''false'')"
| "to_string (JNum n) = n"
| "to_string (JStr s) = s"
| "to_string (JArr xs) =
     join '','' (map (\<lambda>x. if x = JUndefined \<or> x = JNull then [] else to_string x) xs)"
| "to_string (JObj kvs) = ''[object Object]''"

section \<open>The environment: configuration, engine and object store\<close>

text \<open>
  \<^verbatim>\<open>CONFIG\<close> is blank in the source (the credentials, the bucket and the two storage
  keys are to be filled in), so it is a parameter. The engine's JSON codec, its parser for
  dates that are not plain \<^verbatim>\<open>YYYY-MM-DD\<close>, its Unicode case conversions and the time
  zone of the process are parameters too: \<^verbatim>\<open>json_parse\<close> returns the message of the
  \<^verbatim>\<open>SyntaxError\<close> on the left, \<^verbatim>\<open>json_stringify\<close> is \<^verbatim>\<open>JSON.stringify(v, null, 2)\<close>,
  \<^verbatim>\<open>legacy_date\<close> is the time value (milliseconds since the epoch, \<^verbatim>\<open>None\<close> for an
  invalid date) of \<^verbatim>\<open>new Date(v)\<close>, \<^verbatim>\<open>unicode_upper\<close> and \<^verbatim>\<open>unicode_lower\<close> are
  \<^verbatim>\<open>toUpperCase\<close> and \<^verbatim>\<open>toLowerCase\<close> on the strings that have a character outside
  ASCII, and \<^verbatim>\<open>LocalTZA t isUTC\<close> is the offset of local time from UTC, in
  milliseconds, that is in force at the time value \<^verbatim>\<open>t\<close>, a UTC time when \<^verbatim>\<open>isUTC\<close>
  holds and a local time otherwise (the offset changes with daylight saving).
\<close>

record config =
  bucket :: string
  region :: string
  sentCards_path :: string
  receivedCards_path :: string

record env =
  CONFIG :: config
  json_parse :: "string \<Rightarrow> string + jsval"
  json_stringify :: "jsval \<Rightarrow> string"
  legacy_date :: "jsval \<Rightarrow> int option"
  unicode_upper :: "string \<Rightarrow> string"
  unicode_lower :: "string \<Rightarrow> string"
  LocalTZA :: "int \<Rightarrow> bool \<Rightarrow> int"

definition toUpperCase :: "env \<Rightarrow> string \<Rightarrow> string" where
  "toUpperCase E s = (if list_all is_ascii s then map upper_char s else unicode_upper E s)"

definition toLowerCase :: "env \<Rightarrow> string \<Rightarrow> string" where
  "toLowerCase E s = (if list_all is_ascii s then map lower_char s else unicode_lower E s)"

text \<open>
  The object store. Its state is the blobs of the configured bucket by key, each as the
  text that \<^verbatim>\<open>Body.toString('utf8')\<close> decodes it to, the outcome
  of the requests to come (\<^verbatim>\<open>Some f\<close>: the request is rejected with the failure
  \<^verbatim>\<open>f\<close>; \<^verbatim>\<open>None\<close>, or nothing listed: it is served), and the log of the requests made,
  which is what a spy on the client would record. A failure carries the three fields the
  code reads; a field that is absent is the text \<^verbatim>\<open>undefined\<close>, which is how the
  messages print it and which equals none of the codes the code tests for.
\<close>

record cos_failure =
  code :: string
  message :: string
  requestId :: string

datatype cos_call = GetObject string | PutObject string string

record cos_state =
  objects :: "string \<Rightarrow> string option"
  faults :: "cos_failure option list"
  calls :: "cos_call list"

definition no_such_key :: cos_failure where
  "no_such_key =
     \<lparr>code = ''NoSuchKey'', message = ''The specified key does not exist.'',
      requestId = ''undefined''\<rparr>"

text \<open>The failure the next request will be rejected with, if any.\<close>

definition next_fault :: "cos_state \<Rightarrow> cos_failure option" where
  "next_fault st = (case faults st of Some f # rest \<Rightarrow> Some f | _ \<Rightarrow> None)"

definition getObject :: "string \<Rightarrow> cos_state \<Rightarrow> (cos_failure + string) \<times> cos_state" where
  "getObject key st =
     (let st' = st\<lparr>faults := tl (faults st), calls := calls st @ [GetObject key]\<rparr> in
      case next_fault st of
        Some f \<Rightarrow> (Inl f, st')
      | None \<Rightarrow>
         (case objects st key of
            None \<Rightarrow> (Inl no_such_key, st')
          | Some body \<Rightarrow> (Inr body, st')))"

definition putObject :: "string \<Rightarrow> string \<Rightarrow> cos_state \<Rightarrow> (cos_failure + unit) \<times> cos_state" where
  "putObject key body st =
     (let st' = st\<lparr>faults := tl (faults st), calls := calls st @ [PutObject key body]\<rparr> in
      case next_fault st of
        Some f \<Rightarrow> (Inl f, st')
      | None \<Rightarrow> (Inr (), st'\<lparr>objects := (objects st)(key \<mapsto> body)\<rparr>))"

subsection \<open>Messages\<close>

text \<open>The UTF-8 bytes of the message texts of the source, with an English gloss.\<close>

definition msg_write_not_array :: string where
  \<comment> \<open>the data to write must be an array\<close>
  "msg_write_not_array =
     [CHR 0xE5, CHR 0x86, CHR 0x99, CHR 0xE5, CHR 0x85, CHR 0xA5, CHR 0xE7, CHR 0x9A, CHR 0x84,
      CHR 0xE6, CHR 0x95, CHR 0xB0, CHR 0xE6, CHR 0x8D, CHR 0xAE, CHR 0xE5, CHR 0xBF, CHR 0x85,
      CHR 0xE9, CHR 0xA1, CHR 0xBB, CHR 0xE6, CHR 0x98, CHR 0xAF, CHR 0xE6, CHR 0x95, CHR 0xB0,
      CHR 0xE7, CHR 0xBB, CHR 0x84]"

definition msg_save_failed :: string where
  \<comment> \<open>saving the data failed:\<close>
  "msg_save_failed =
     [CHR 0xE6, CHR 0x95, CHR 0xB0, CHR 0xE6, CHR 0x8D, CHR 0xAE, CHR 0xE4, CHR 0xBF, CHR 0x9D,
      CHR 0xE5, CHR 0xAD, CHR 0x98, CHR 0xE5, CHR 0xA4, CHR 0xB1, CHR 0xE8, CHR 0xB4, CHR 0xA5]
     @ '': ''"

definition msg_read_failed :: string where
  \<comment> \<open>reading the data failed:\<close>
  "msg_read_failed =
     [CHR 0xE6, CHR 0x95, CHR 0xB0, CHR 0xE6, CHR 0x8D, CHR 0xAE, CHR 0xE8, CHR 0xAF, CHR 0xBB,
      CHR 0xE5, CHR 0x8F, CHR 0x96, CHR 0xE5, CHR 0xA4, CHR 0xB1, CHR 0xE8, CHR 0xB4, CHR 0xA5]
     @ '': ''"

definition msg_signature :: string where
  \<comment> \<open>the COS signature check failed: check SecretId/SecretKey and the region\<close>
  "msg_signature =
     ''COS'' @ [CHR 0xE7, CHR 0xAD, CHR 0xBE, CHR 0xE5, CHR 0x90, CHR 0x8D, CHR 0xE9, CHR 0xAA,
      CHR 0x8C, CHR 0xE8, CHR 0xAF, CHR 0x81, CHR 0xE5, CHR 0xA4, CHR 0xB1, CHR 0xE8, CHR 0xB4,
      CHR 0xA5] @ '': '' @ [CHR 0xE8, CHR 0xAF, CHR 0xB7, CHR 0xE6, CHR 0xA3, CHR 0x80, CHR 0xE6,
      CHR 0x9F, CHR 0xA5] @ ''SecretId/SecretKey'' @ [CHR 0xE5, CHR 0x92, CHR 0x8C, CHR 0xE5,
      CHR 0x8C, CHR 0xBA, CHR 0xE5, CHR 0x9F, CHR 0x9F, CHR 0xE9, CHR 0x85, CHR 0x8D, CHR 0xE7,
      CHR 0xBD, CHR 0xAE] @ '' (RequestId: ''"

definition msg_access_denied :: string where
  \<comment> \<open>access rights are insufficient: check the rights of the key\<close>
  "msg_access_denied =
     [CHR 0xE8, CHR 0xAE, CHR 0xBF, CHR 0xE9, CHR 0x97, CHR 0xAE, CHR 0xE6, CHR 0x9D, CHR 0x83,
      CHR 0xE9, CHR 0x99, CHR 0x90, CHR 0xE4, CHR 0xB8, CHR 0x8D, CHR 0xE8, CHR 0xB6, CHR 0xB3]
     @ '': '' @ [CHR 0xE8, CHR 0xAF, CHR 0xB7, CHR 0xE6, CHR 0xA3, CHR 0x80, CHR 0xE6, CHR 0x9F,
      CHR 0xA5, CHR 0xE5, CHR 0xAF, CHR 0x86, CHR 0xE9, CHR 0x92, CHR 0xA5, CHR 0xE6, CHR 0x9D,
      CHR 0x83, CHR 0xE9, CHR 0x99, CHR 0x90, CHR 0xE9, CHR 0x85, CHR 0x8D, CHR 0xE7, CHR 0xBD,
      CHR 0xAE] @ '' (RequestId: ''"

definition msg_invalid_bucket :: string where
  \<comment> \<open>the bucket name is invalid:\<close>
  "msg_invalid_bucket =
     ''Bucket'' @ [CHR 0xE5, CHR 0x90, CHR 0x8D, CHR 0xE7, CHR 0xA7, CHR 0xB0, CHR 0xE6, CHR 0x97,
      CHR 0xA0, CHR 0xE6, CHR 0x95, CHR 0x88] @ '': ''"

definition msg_invalid_region :: string where
  \<comment> \<open>the region setting is invalid:\<close>
  "msg_invalid_region =
     [CHR 0xE5, CHR 0x8C, CHR 0xBA, CHR 0xE5, CHR 0x9F, CHR 0x9F, CHR 0xE9, CHR 0x85, CHR 0x8D,
      CHR 0xE7, CHR 0xBD, CHR 0xAE, CHR 0xE6, CHR 0x97, CHR 0xA0, CHR 0xE6, CHR 0x95, CHR 0x88]
     @ '': ''"

section \<open>The collection store: readFromCos and writeToCos\<close>

text \<open>
  The \<^verbatim>\<open>catch\<close> block of \<^verbatim>\<open>readFromCos\<close>: what becomes of the failure \<^verbatim>\<open>error\<close> that
  the request, or the parsing of its body, threw.
\<close>

definition read_catch :: "env \<Rightarrow> cos_failure \<Rightarrow> error + jsval" where
  "read_catch E error =
     (if code error = ''NoSuchKey'' then Inr (JArr [])
      else if code error = ''SignatureDoesNotMatch'' then
        Inl (QslError (msg_signature @ requestId error @ '')'') 1001 403)
      else if code error = ''AccessDenied'' then
        Inl (QslError (msg_access_denied @ requestId error @ '')'') 1002 403)
      else if code error = ''InvalidBucketName'' then
        Inl (QslError (msg_invalid_bucket @ bucket (CONFIG E) @ '' (RequestId: ''
               @ requestId error @ '')'') 1003 400)
      else if code error = ''InvalidRegion'' then
        Inl (QslError (msg_invalid_region @ region (CONFIG E) @ '' (RequestId: ''
               @ requestId error @ '')'') 1004 400)
      else
        Inl (QslError (msg_read_failed @ message error @ '' ('' @ code error @ '')'') 1005 500))"

definition readFromCos :: "env \<Rightarrow> string \<Rightarrow> cos_state \<Rightarrow> (error + jsval) \<times> cos_state" where
  "readFromCos E key st =
     (case getObject key st of
        (Inr body, st') \<Rightarrow>
          (let content = trim body in
           if content \<noteq> [] then
             (case json_parse E content of
                Inr v \<Rightarrow> (Inr v, st')
              | Inl m \<Rightarrow>
                  (read_catch E
                     \<lparr>code = ''undefined'', message = m, requestId = ''undefined''\<rparr>, st'))
           else (Inr (JArr []), st'))
      | (Inl error, st') \<Rightarrow> (read_catch E error, st'))"

definition writeToCos :: "env \<Rightarrow> string \<Rightarrow> jsval \<Rightarrow> cos_state \<Rightarrow> (error + unit) \<times> cos_state" where
  "writeToCos E key data st =
     (if \<not> isArray data then (Inl (QslError msg_write_not_array 1002 400), st)
      else
        (case putObject key (json_stringify E data) st of
           (Inr u, st') \<Rightarrow> (Inr (), st')
         | (Inl error, st') \<Rightarrow> (Inl (QslError (msg_save_failed @ message error) 1003 500), st')))"

section \<open>Record validation: validateCardData\<close>

definition msg_callSign :: string where
  \<comment> \<open>the call sign of the other station must not be empty\<close>
  "msg_callSign =
     [CHR 0xE5, CHR 0xAF, CHR 0xB9, CHR 0xE6, CHR 0x96, CHR 0xB9, CHR 0xE5, CHR 0x91, CHR 0xBC,
      CHR 0xE5, CHR 0x8F, CHR 0xB7, CHR 0xE4, CHR 0xB8, CHR 0x8D, CHR 0xE8, CHR 0x83, CHR 0xBD,
      CHR 0xE4, CHR 0xB8, CHR 0xBA, CHR 0xE7, CHR 0xA9, CHR 0xBA]"

definition msg_myCallSign :: string where
  \<comment> \<open>my call sign must not be empty\<close>
  "msg_myCallSign =
     [CHR 0xE6, CHR 0x88, CHR 0x91, CHR 0xE7, CHR 0x9A, CHR 0x84, CHR 0xE5, CHR 0x91, CHR 0xBC,
      CHR 0xE5, CHR 0x8F, CHR 0xB7, CHR 0xE4, CHR 0xB8, CHR 0x8D, CHR 0xE8, CHR 0x83, CHR 0xBD,
      CHR 0xE4, CHR 0xB8, CHR 0xBA, CHR 0xE7, CHR 0xA9, CHR 0xBA]"

definition msg_date :: string where
  \<comment> \<open>the contact date is not in the format (YYYY-MM-DD)\<close>
  "msg_date =
     [CHR 0xE9, CHR 0x80, CHR 0x9A, CHR 0xE8, CHR 0x81, CHR 0x94, CHR 0xE6, CHR 0x97, CHR 0xA5,
      CHR 0xE6, CHR 0x9C, CHR 0x9F, CHR 0xE6, CHR 0xA0, CHR 0xBC, CHR 0xE5, CHR 0xBC, CHR 0x8F,
      CHR 0xE4, CHR 0xB8, CHR 0x8D, CHR 0xE6, CHR 0xAD, CHR 0xA3, CHR 0xE7, CHR 0xA1, CHR 0xAE]
      @ ''(YYYY-MM-DD)''"

definition msg_mode :: string where
  \<comment> \<open>the communication mode must not be empty\<close>
  "msg_mode =
     [CHR 0xE9, CHR 0x80, CHR 0x9A, CHR 0xE4, CHR 0xBF, CHR 0xA1, CHR 0xE6, CHR 0xA8, CHR 0xA1,
      CHR 0xE5, CHR 0xBC, CHR 0x8F, CHR 0xE4, CHR 0xB8, CHR 0x8D, CHR 0xE8, CHR 0x83, CHR 0xBD,
      CHR 0xE4, CHR 0xB8, CHR 0xBA, CHR 0xE7, CHR 0xA9, CHR 0xBA]"

definition msg_cardType :: string where
  \<comment> \<open>the card type must be online or physical\<close>
  "msg_cardType =
     [CHR 0xE5, CHR 0x8D, CHR 0xA1, CHR 0xE7, CHR 0x89, CHR 0x87, CHR 0xE7, CHR 0xB1, CHR 0xBB,
      CHR 0xE5, CHR 0x9E, CHR 0x8B, CHR 0xE5, CHR 0xBF, CHR 0x85, CHR 0xE9, CHR 0xA1, CHR 0xBB,
      CHR 0xE6, CHR 0x98, CHR 0xAF] @ ''online'' @ [CHR 0xE6, CHR 0x88, CHR 0x96] @
      ''physical''"

definition msg_sent_status :: string where
  \<comment> \<open>the status of a sent card must be pending or sent\<close>
  "msg_sent_status =
     [CHR 0xE5, CHR 0xB7, CHR 0xB2, CHR 0xE5, CHR 0x8F, CHR 0x91, CHR 0xE9, CHR 0x80, CHR 0x81,
      CHR 0xE5, CHR 0x8D, CHR 0xA1, CHR 0xE7, CHR 0x89, CHR 0x87, CHR 0xE7, CHR 0x8A, CHR 0xB6,
      CHR 0xE6, CHR 0x80, CHR 0x81, CHR 0xE5, CHR 0xBF, CHR 0x85, CHR 0xE9, CHR 0xA1, CHR 0xBB,
      CHR 0xE6, CHR 0x98, CHR 0xAF] @ ''pending'' @ [CHR 0xE6, CHR 0x88, CHR 0x96] @ ''sent''"

definition msg_received_status :: string where
  \<comment> \<open>the status of a received card must be received or verified\<close>
  "msg_received_status =
     [CHR 0xE5, CHR 0xB7, CHR 0xB2, CHR 0xE6, CHR 0x8E, CHR 0xA5, CHR 0xE6, CHR 0x94, CHR 0xB6,
      CHR 0xE5, CHR 0x8D, CHR 0xA1, CHR 0xE7, CHR 0x89, CHR 0x87, CHR 0xE7, CHR 0x8A, CHR 0xB6,
      CHR 0xE6, CHR 0x80, CHR 0x81, CHR 0xE5, CHR 0xBF, CHR 0x85, CHR 0xE9, CHR 0xA1, CHR 0xBB,
      CHR 0xE6, CHR 0x98, CHR 0xAF] @ ''received'' @ [CHR 0xE6, CHR 0x88, CHR 0x96] @
      ''verified''"

definition msg_validation_failed :: string where
  \<comment> \<open>validation of the card data failed:\<close>
  "msg_validation_failed =
     [CHR 0xE5, CHR 0x8D, CHR 0xA1, CHR 0xE7, CHR 0x89, CHR 0x87, CHR 0xE6, CHR 0x95, CHR 0xB0,
      CHR 0xE6, CHR 0x8D, CHR 0xAE, CHR 0xE9, CHR 0xAA, CHR 0x8C, CHR 0xE8, CHR 0xAF, CHR 0x81,
      CHR 0xE5, CHR 0xA4, CHR 0xB1, CHR 0xE8, CHR 0xB4, CHR 0xA5] @ '': ''"

definition msg_id_required :: string where
  \<comment> \<open>the card ID must not be empty\<close>
  "msg_id_required =
     [CHR 0xE5, CHR 0x8D, CHR 0xA1, CHR 0xE7, CHR 0x89, CHR 0x87] @ ''ID'' @ [CHR 0xE4, CHR
      0xB8, CHR 0x8D, CHR 0xE8, CHR 0x83, CHR 0xBD, CHR 0xE4, CHR 0xB8, CHR 0xBA, CHR 0xE7, CHR
      0xA9, CHR 0xBA]"

definition msg_not_found_pre :: string where
  \<comment> \<open>no card with the ID ... was found (the part before the ID)\<close>
  "msg_not_found_pre =
     [CHR 0xE6, CHR 0x9C, CHR 0xAA, CHR 0xE6, CHR 0x89, CHR 0xBE, CHR 0xE5, CHR 0x88, CHR 0xB0]
      @ ''ID'' @ [CHR 0xE4, CHR 0xB8, CHR 0xBA]"

definition msg_not_found_post :: string where
  \<comment> \<open>no card with the ID ... was found (the part after the ID)\<close>
  "msg_not_found_post =
     [CHR 0xE7, CHR 0x9A, CHR 0x84, CHR 0xE5, CHR 0x8D, CHR 0xA1, CHR 0xE7, CHR 0x89, CHR 0x87]"

text \<open>
  \<^verbatim>\<open>v?.m()\<close> for a string method \<^verbatim>\<open>m\<close>: \<^verbatim>\<open>undefined\<close> when \<^verbatim>\<open>v\<close> is \<^verbatim>\<open>null\<close> or
  \<^verbatim>\<open>undefined\<close>, the method's result on a string, and a \<^verbatim>\<open>TypeError\<close> on any other
  value, which has no such method to call. \<^verbatim>\<open>v.m()\<close> without the \<^verbatim>\<open>?\<close> throws on
  \<^verbatim>\<open>null\<close> and \<^verbatim>\<open>undefined\<close> too.
\<close>

fun opt_call :: "(string \<Rightarrow> string) \<Rightarrow> jsval \<Rightarrow> error + jsval" where
  "opt_call m JUndefined = Inr JUndefined"
| "opt_call m JNull = Inr JUndefined"
| "opt_call m (JStr s) = Inr (JStr (m s))"
| "opt_call m v = Inl TypeError"

fun call :: "(string \<Rightarrow> string) \<Rightarrow> jsval \<Rightarrow> error + jsval" where
  "call m (JStr s) = Inr (JStr (m s))"
| "call m v = Inl TypeError"

text \<open>\<^verbatim>\<open>xs.includes(v)\<close> for a literal array of strings.\<close>

definition array_includes :: "string list \<Rightarrow> jsval \<Rightarrow> bool" where
  "array_includes xs v = list_ex (\<lambda>x. strict_eq (JStr x) v) xs"

text \<open>The pattern \<^verbatim>\<open>/^\d{4}-\d{2}-\d{2}$/\<close>.\<close>

definition is_digit :: "char \<Rightarrow> bool" where
  "is_digit c \<longleftrightarrow> c \<in> set ''0123456789''"

definition date_pattern :: "string \<Rightarrow> bool" where
  "date_pattern s \<longleftrightarrow>
     length s = 10 \<and> list_all is_digit (take 4 s) \<and> s ! 4 = CHR ''-''
     \<and> list_all is_digit (take 2 (drop 5 s)) \<and> s ! 7 = CHR ''-''
     \<and> list_all is_digit (drop 8 s)"

text \<open>\<^verbatim>\<open>if (c) errors.push(m)\<close>.\<close>

definition push_if :: "bool \<Rightarrow> string \<Rightarrow> string list \<Rightarrow> string list" where
  "push_if c m errors = (if c then errors @ [m] else errors)"

definition validateCardData :: "jsval \<Rightarrow> bool \<Rightarrow> error + unit" where
  "validateCardData crd isSentCard =
     bindE (bindE (get_prop crd ''callSign'') (opt_call trim)) (\<lambda>callSign.
     let errors = push_if (\<not> truthy callSign) msg_callSign [] in
     bindE (bindE (get_prop crd ''myCallSign'') (opt_call trim)) (\<lambda>myCallSign.
     let errors = push_if (\<not> truthy myCallSign) msg_myCallSign errors in
     bindE (get_prop crd ''date'') (\<lambda>date.
     let errors = push_if (\<not> date_pattern (to_string date)) msg_date errors in
     bindE (bindE (get_prop crd ''mode'') (opt_call trim)) (\<lambda>mode.
     let errors = push_if (\<not> truthy mode) msg_mode errors in
     bindE (get_prop crd ''cardType'') (\<lambda>cardType.
     let errors = push_if (\<not> array_includes [''online'', ''physical''] cardType) msg_cardType errors in
     bindE (get_prop crd ''status'') (\<lambda>status.
     let errors = push_if (isSentCard \<and> \<not> array_includes [''pending'', ''sent''] status)
                    msg_sent_status errors in
     let errors = push_if (\<not> isSentCard \<and> truthy status
                             \<and> \<not> array_includes [''received'', ''verified''] status)
                    msg_received_status errors in
     if length errors > 0 then
       Inl (QslError (msg_validation_failed @ join ''; '' errors) 2001 400)
     else Inr ()))))))"

section \<open>Dates\<close>

text \<open>
  The engine's \<^verbatim>\<open>Date\<close>, as far as the program uses it. A time value is the number of
  milliseconds since the epoch; the calendar is the proleptic Gregorian one;
  local time is UTC plus the offset that the environment has in force at that time. The
  names are those of the language standard: \<^verbatim>\<open>Day\<close>, \<^verbatim>\<open>MakeDay\<close>, \<^verbatim>\<open>LocalTime\<close>,
  \<^verbatim>\<open>UTC\<close>, \<^verbatim>\<open>LocalTZA\<close>.
\<close>

definition msPerDay :: int where
  "msPerDay = 86400000"

definition is_leap :: "int \<Rightarrow> bool" where
  "is_leap y \<longleftrightarrow> (y mod 4 = 0 \<and> y mod 100 \<noteq> 0) \<or> y mod 400 = 0"

text \<open>The days of month \<^verbatim>\<open>m\<close> (1 to 12) of year \<^verbatim>\<open>y\<close>.\<close>

definition days_in_month :: "int \<Rightarrow> int \<Rightarrow> int" where
  "days_in_month y m =
     (if m = 2 then (if is_leap y then 29 else 28)
      else if m = 4 \<or> m = 6 \<or> m = 9 \<or> m = 11 then 30 else 31)"

text \<open>
  The day number (days since 1970-01-01) of a calendar date with the month in 1 to 12,
  and the calendar date \<^verbatim>\<open>(year, month, day)\<close> of a day number.
\<close>

definition days_from_civil :: "int \<Rightarrow> int \<Rightarrow> int \<Rightarrow> int" where
  "days_from_civil y m d =
     (let y' = (if m \<le> 2 then y - 1 else y);
          era = y' div 400;
          yoe = y' - era * 400;
          doy = (153 * (if m > 2 then m - 3 else m + 9) + 2) div 5 + d - 1;
          doe = yoe * 365 + yoe div 4 - yoe div 100 + doy
      in era * 146097 + doe - 719468)"

definition civil_from_days :: "int \<Rightarrow> int \<times> int \<times> int" where
  "civil_from_days z =
     (let z' = z + 719468;
          era = z' div 146097;
          doe = z' - era * 146097;
          yoe = (doe - doe div 1460 + doe div 36524 - doe div 146096) div 365;
          doy = doe - (365 * yoe + yoe div 4 - yoe div 100);
          mp = (5 * doy + 2) div 153;
          d = doy - (153 * mp + 2) div 5 + 1;
          m = (if mp < 10 then mp + 3 else mp - 9);
          y = yoe + era * 400
      in (if m \<le> 2 then y + 1 else y, m, d))"

definition Day :: "int \<Rightarrow> int" where
  "Day t = t div msPerDay"

text \<open>
  \<^verbatim>\<open>MakeDay(year, month, date)\<close> with a zero-based month that may lie outside 0 to 11
  and a day that may lie outside the month: the day number of the first of the
  normalised month, plus \<^verbatim>\<open>date - 1\<close>.
\<close>

definition MakeDay :: "int \<Rightarrow> int \<Rightarrow> int \<Rightarrow> int" where
  "MakeDay year month date =
     days_from_civil (year + month div 12) (month mod 12 + 1) 1 + date - 1"

definition LocalTime :: "env \<Rightarrow> int \<Rightarrow> int" where
  "LocalTime E t = t + LocalTZA E t True"

definition UTC :: "env \<Rightarrow> int \<Rightarrow> int" where
  "UTC E t = t - LocalTZA E t False"

definition getFullYear :: "env \<Rightarrow> int \<Rightarrow> int" where
  "getFullYear E t = fst (civil_from_days (Day (LocalTime E t)))"

text \<open>\<^verbatim>\<open>getMonth\<close> is zero-based.\<close>

definition getMonth :: "env \<Rightarrow> int \<Rightarrow> int" where
  "getMonth E t = fst (snd (civil_from_days (Day (LocalTime E t)))) - 1"

definition getDate :: "env \<Rightarrow> int \<Rightarrow> int" where
  "getDate E t = snd (snd (civil_from_days (Day (LocalTime E t))))"

text \<open>
  \<^verbatim>\<open>date.setMonth(month)\<close>: the local year, day of the month and time of day are kept,
  the month is replaced, and \<^verbatim>\<open>MakeDay\<close> carries a day that the new month does not have
  into the month after it.
\<close>

definition setMonth :: "env \<Rightarrow> int \<Rightarrow> int \<Rightarrow> int" where
  "setMonth E t month =
     (let lt = LocalTime E t in
      UTC E (MakeDay (getFullYear E t) month (getDate E t) * msPerDay + lt mod msPerDay))"

text \<open>Decimal numerals: \<^verbatim>\<open>String(n)\<close> for an integer, and \<^verbatim>\<open>padStart(w, '0')\<close>.\<close>

fun show_nat :: "nat \<Rightarrow> string" where
  "show_nat n =
     (if n < 10 then [''0123456789'' ! n] else show_nat (n div 10) @ [''0123456789'' ! (n mod 10)])"

declare show_nat.simps [simp del]

definition show_int :: "int \<Rightarrow> string" where
  "show_int i = (if i < 0 then ''-'' @ show_nat (nat (- i)) else show_nat (nat i))"

definition padStart :: "nat \<Rightarrow> string \<Rightarrow> string" where
  "padStart w s = replicate (w - length s) (CHR ''0'') @ s"

text \<open>
  The value of a decimal numeral, and the reading of a string of the form
  \<^verbatim>\<open>YYYY-MM-DD\<close> as a date: such a string denotes midnight UTC of that day when the month
  is 01 to 12 and the day is one the month has. Every other argument of \<^verbatim>\<open>new Date(v)\<close>
  is left to the engine's own parser, \<^verbatim>\<open>legacy_date\<close>.
\<close>

definition digit_val :: "char \<Rightarrow> nat" where
  "digit_val c = of_char c - 48"

definition digits_val :: "string \<Rightarrow> nat" where
  "digits_val s = foldl (\<lambda>n c. 10 * n + digit_val c) 0 s"

definition iso_date :: "string \<Rightarrow> (int \<times> int \<times> int) option" where
  "iso_date s =
     (if date_pattern s then
        (let y = int (digits_val (take 4 s));
             m = int (digits_val (take 2 (drop 5 s)));
             d = int (digits_val (drop 8 s))
         in if 1 \<le> m \<and> m \<le> 12 \<and> 1 \<le> d \<and> d \<le> days_in_month y m then Some (y, m, d)
            else None)
      else None)"

definition new_Date :: "env \<Rightarrow> jsval \<Rightarrow> int option" where
  "new_Date E v =
     (case v of
        JStr s \<Rightarrow>
          (case iso_date s of
             Some (y, m, d) \<Rightarrow> Some (MakeDay y (m - 1) d * msPerDay)
           | None \<Rightarrow> legacy_date E v)
      | _ \<Rightarrow> legacy_date E v)"

text \<open>
  \<^verbatim>\<open>date.toISOString()\<close>: the UTC fields as \<^verbatim>\<open>YYYY-MM-DDTHH:mm:ss.sssZ\<close>, the year with
  a sign and six digits when it is not within 0 to 9999.
\<close>

definition iso_year :: "int \<Rightarrow> string" where
  "iso_year y =
     (if 0 \<le> y \<and> y \<le> 9999 then padStart 4 (show_nat (nat y))
      else (if y < 0 then ''-'' else ''+'') @ padStart 6 (show_nat (nat \<bar>y\<bar>)))"

definition toISOString :: "int \<Rightarrow> string" where
  "toISOString t =
     (let (y, m, d) = civil_from_days (Day t);
          ms = t mod msPerDay
      in iso_year y @ ''-'' @ padStart 2 (show_nat (nat m)) @ ''-'' @ padStart 2 (show_nat (nat d))
         @ ''T'' @ padStart 2 (show_nat (nat (ms div 3600000)))
         @ '':'' @ padStart 2 (show_nat (nat (ms div 60000 mod 60)))
         @ '':'' @ padStart 2 (show_nat (nat (ms div 1000 mod 60)))
         @ ''.'' @ padStart 3 (show_nat (nat (ms mod 1000))) @ ''Z'')"

section \<open>The aggregator: getStats and getChartData\<close>

text \<open>
  Array methods whose callback may throw: \<^verbatim>\<open>filter\<close>, \<^verbatim>\<open>forEach\<close> with an accumulator,
  and \<^verbatim>\<open>findIndex\<close> (\<^verbatim>\<open>None\<close> for the result -1).
\<close>

fun filterE :: "('a \<Rightarrow> error + bool) \<Rightarrow> 'a list \<Rightarrow> error + 'a list" where
  "filterE p [] = Inr []"
| "filterE p (x # xs) =
     (case p x of
        Inl e \<Rightarrow> Inl e
      | Inr b \<Rightarrow>
          (case filterE p xs of
             Inl e \<Rightarrow> Inl e
           | Inr ys \<Rightarrow> Inr (if b then x # ys else ys)))"

fun forEach :: "('a \<Rightarrow> 's \<Rightarrow> error + 's) \<Rightarrow> 'a list \<Rightarrow> 's \<Rightarrow> error + 's" where
  "forEach f [] s = Inr s"
| "forEach f (x # xs) s = (case f x s of Inl e \<Rightarrow> Inl e | Inr s' \<Rightarrow> forEach f xs s')"

fun findIndex :: "('a \<Rightarrow> error + bool) \<Rightarrow> 'a list \<Rightarrow> error + nat option" where
  "findIndex p [] = Inr None"
| "findIndex p (x # xs) =
     (case p x of
        Inl e \<Rightarrow> Inl e
      | Inr b \<Rightarrow>
          if b then Inr (Some 0)
          else (case findIndex p xs of Inl e \<Rightarrow> Inl e | Inr r \<Rightarrow> Inr (map_option Suc r)))"

text \<open>
  \<^verbatim>\<open>v.filter(p)\<close> on a loaded value: only an array has the method. The spread
  \<^verbatim>\<open>[...v]\<close> takes the elements of an array and the characters of a string, and throws on
  every other JSON value.
\<close>

definition array_filter :: "(jsval \<Rightarrow> error + bool) \<Rightarrow> jsval \<Rightarrow> error + jsval list" where
  "array_filter p v = (case v of JArr xs \<Rightarrow> filterE p xs | _ \<Rightarrow> Inl TypeError)"

definition spread :: "jsval \<Rightarrow> error + jsval list" where
  "spread v =
     (case v of
        JArr xs \<Rightarrow> Inr xs
      | JStr s \<Rightarrow> Inr (map JStr (code_points (units s)))
      | _ \<Rightarrow> Inl TypeError)"

subsection \<open>getStats\<close>

text \<open>\<^verbatim>\<open>countries.add(country)\<close> on a \<^verbatim>\<open>Set\<close>, kept as the list of its members.\<close>

definition set_add :: "'a \<Rightarrow> 'a list \<Rightarrow> 'a list" where
  "set_add x s = (if x \<in> set s then s else s @ [x])"

definition add_country :: "env \<Rightarrow> jsval \<Rightarrow> string list \<Rightarrow> error + string list" where
  "add_country E crd countries =
     bindE (get_prop crd ''callSign'') (\<lambda>callSign.
     if truthy callSign then
       bindE (call (\<lambda>s. toUpperCase E (substring 0 2 s)) callSign) (\<lambda>country.
       Inr (set_add (to_string country) countries))
     else Inr countries)"

definition is_eye :: "env \<Rightarrow> jsval \<Rightarrow> error + bool" where
  "is_eye E crd =
     bindE (bindE (get_prop crd ''mode'') (opt_call (toLowerCase E))) (\<lambda>mode.
     Inr (strict_eq mode (JStr ''eye'')))"

definition is_pending :: "jsval \<Rightarrow> error + bool" where
  "is_pending crd = bindE (get_prop crd ''status'') (\<lambda>status. Inr (strict_eq status (JStr ''pending'')))"

record stats =
  received :: nat
  sent :: nat
  pending :: nat
  countries :: nat
  eyeQso :: nat
  receivedGrowth :: int
  sentGrowth :: int
  countryGrowth :: int

text \<open>
  The body of \<^verbatim>\<open>getStats\<close> after the two loads. The three growth figures are
  \<^verbatim>\<open>Math.floor(Math.random() * n) + 1\<close>; the draws \<^verbatim>\<open>Math.floor(Math.random() * n)\<close> are
  inputs.
\<close>

definition stats_of :: "env \<Rightarrow> jsval \<Rightarrow> jsval \<Rightarrow> int \<times> int \<times> int \<Rightarrow> error + stats" where
  "stats_of E sentCards receivedCards rnd =
     bindE (spread sentCards) (\<lambda>s.
     bindE (spread receivedCards) (\<lambda>r.
     bindE (forEach (add_country E) (s @ r) []) (\<lambda>countries.
     bindE (filterE (is_eye E) (s @ r)) (\<lambda>eye.
     bindE (array_filter is_pending sentCards) (\<lambda>p.
     Inr \<lparr>received = length r, sent = length s, pending = length p,
          countries = length countries, eyeQso = length eye,
          receivedGrowth = fst rnd + 1, sentGrowth = fst (snd rnd) + 1,
          countryGrowth = snd (snd rnd) + 1\<rparr>)))))"

definition getStats :: "env \<Rightarrow> int \<times> int \<times> int \<Rightarrow> cos_state \<Rightarrow> (error + stats) \<times> cos_state" where
  "getStats E rnd st =
     (case readFromCos E (sentCards_path (CONFIG E)) st of
        (Inl e, st1) \<Rightarrow> (Inl e, st1)
      | (Inr sentCards, st1) \<Rightarrow>
          (case readFromCos E (receivedCards_path (CONFIG E)) st1 of
             (Inl e, st2) \<Rightarrow> (Inl e, st2)
           | (Inr receivedCards, st2) \<Rightarrow> (stats_of E sentCards receivedCards rnd, st2)))"

subsection \<open>getChartData\<close>

record chart =
  labels :: "string list"
  monthlySent :: "nat list"
  monthlyPending :: "nat list"
  monthlyReceived :: "nat list"
  modeLabels :: "string list"
  modeData :: "nat list"

text \<open>The label \<^verbatim>\<open>YYYY-MM\<close> of the local month of a time value.\<close>

definition month_key :: "env \<Rightarrow> int \<Rightarrow> string" where
  "month_key E t =
     show_int (getFullYear E t) @ ''-'' @ padStart 2 (show_int (getMonth E t + 1))"

text \<open>The callback of the three filters of the loop.\<close>

definition in_month :: "env \<Rightarrow> string \<Rightarrow> jsval \<Rightarrow> error + bool" where
  "in_month E monthKey crd =
     bindE (get_prop crd ''date'') (\<lambda>date.
     if \<not> truthy date then Inr False
     else
       (case new_Date E date of
          None \<Rightarrow> Inr False
        | Some cardDate \<Rightarrow> Inr (month_key E cardDate = monthKey)))"

text \<open>
  One turn of the loop \<^verbatim>\<open>for (let i = 5; i >= 0; i--)\<close>, and the loop from \<^verbatim>\<open>i\<close> down
  to 0. The loop reads the clock anew in each turn, with \<^verbatim>\<open>new Date()\<close>: \<^verbatim>\<open>now i\<close> is
  the reading of turn \<^verbatim>\<open>i\<close>.
\<close>

definition chart_step ::
  "env \<Rightarrow> (nat \<Rightarrow> int) \<Rightarrow> jsval \<Rightarrow> jsval \<Rightarrow> nat \<Rightarrow> chart \<Rightarrow> error + chart" where
  "chart_step E now sentCards receivedCards i acc =
     (let date = setMonth E (now i) (getMonth E (now i) - int i);
          monthKey = month_key E date
      in bindE (array_filter (in_month E monthKey) sentCards) (\<lambda>s.
         bindE (array_filter (in_month E monthKey) sentCards) (\<lambda>p.
         bindE (array_filter (in_month E monthKey) receivedCards) (\<lambda>r.
         Inr (acc\<lparr>labels := labels acc @ [monthKey],
                  monthlySent := monthlySent acc @ [length s],
                  monthlyPending := monthlyPending acc @ [length p],
                  monthlyReceived := monthlyReceived acc @ [length r]\<rparr>)))))"

fun chart_loop ::
  "env \<Rightarrow> (nat \<Rightarrow> int) \<Rightarrow> jsval \<Rightarrow> jsval \<Rightarrow> nat \<Rightarrow> chart \<Rightarrow> error + chart" where
  "chart_loop E now sentCards receivedCards 0 acc = chart_step E now sentCards receivedCards 0 acc"
| "chart_loop E now sentCards receivedCards (Suc i) acc =
     (case chart_step E now sentCards receivedCards (Suc i) acc of
        Inl e \<Rightarrow> Inl e
      | Inr acc' \<Rightarrow> chart_loop E now sentCards receivedCards i acc')"

text \<open>
  The mode breakdown. \<^verbatim>\<open>modes\<close> is an object used as a counter; its keys are upper-cased,
  so none of them is a property the object inherits. \<^verbatim>\<open>Object.keys\<close> lists the keys
  that are array indices first, in ascending order, then the others in the order of their
  creation.
\<close>

definition count_mode ::
  "env \<Rightarrow> jsval \<Rightarrow> (string \<times> nat) list \<Rightarrow> error + (string \<times> nat) list" where
  "count_mode E crd modes =
     bindE (bindE (get_prop crd ''mode'') (opt_call (toUpperCase E))) (\<lambda>u.
     let mode = (if truthy u then to_string u else ''OTHER'') in
     Inr (AList.update mode ((case map_of modes mode of Some n \<Rightarrow> n | None \<Rightarrow> 0) + 1) modes))"

definition is_index_key :: "string \<Rightarrow> bool" where
  "is_index_key k \<longleftrightarrow>
     k \<noteq> [] \<and> list_all is_digit k \<and> (k = ''0'' \<or> hd k \<noteq> CHR ''0'')
     \<and> int (digits_val k) < 4294967295"

definition object_entries :: "(string \<times> 'a) list \<Rightarrow> (string \<times> 'a) list" where
  "object_entries kvs =
     sort_key (\<lambda>(k, v). digits_val k) (filter (\<lambda>(k, v). is_index_key k) kvs)
     @ filter (\<lambda>(k, v). \<not> is_index_key k) kvs"

definition getChartData ::
  "env \<Rightarrow> (nat \<Rightarrow> int) \<Rightarrow> cos_state \<Rightarrow> (error + chart) \<times> cos_state" where
  "getChartData E now st =
     (case readFromCos E (sentCards_path (CONFIG E)) st of
        (Inl e, st1) \<Rightarrow> (Inl e, st1)
      | (Inr sentCards, st1) \<Rightarrow>
          (case readFromCos E (receivedCards_path (CONFIG E)) st1 of
             (Inl e, st2) \<Rightarrow> (Inl e, st2)
           | (Inr receivedCards, st2) \<Rightarrow>
               (bindE (chart_loop E now sentCards receivedCards 5
                        \<lparr>labels = [], monthlySent = [], monthlyPending = [],
                         monthlyReceived = [], modeLabels = [], modeData = []\<rparr>) (\<lambda>monthly.
                bindE (spread sentCards) (\<lambda>s.
                bindE (spread receivedCards) (\<lambda>r.
                bindE (forEach (count_mode E) (s @ r) []) (\<lambda>modes.
                Inr (monthly\<lparr>modeLabels := map fst (object_entries modes),
                             modeData := map snd (object_entries modes)\<rparr>))))), st2)))"

section \<open>The write operations: saveCard and deleteCard\<close>

text \<open>
  The own properties that an object spread \<^verbatim>\<open>{...v}\<close> copies: those of an object (a key
  bound twice counts once, with its first binding), the indexed elements of an array, the
  indexed code units of a string, and none of any other value.
\<close>

definition own_properties :: "jsval \<Rightarrow> (string \<times> jsval) list" where
  "own_properties v =
     (case v of
        JObj kvs \<Rightarrow> AList.clearjunk kvs
      | JArr xs \<Rightarrow> zip (map show_nat [0..<length xs]) xs
      | JStr s \<Rightarrow> zip (map show_nat [0..<length (units s)]) (map JStr (units s))
      | _ \<Rightarrow> [])"

text \<open>Defining the properties \<^verbatim>\<open>kvs\<close> one after the other on the object \<^verbatim>\<open>obj\<close>.\<close>

definition assign :: "(string \<times> jsval) list \<Rightarrow> (string \<times> jsval) list \<Rightarrow> (string \<times> jsval) list" where
  "assign obj kvs = foldl (\<lambda>acc (k, v). AList.update k v acc) obj kvs"

text \<open>
  The object literal of \<^verbatim>\<open>saveCard\<close>. \<^verbatim>\<open>uuid\<close> is what \<^verbatim>\<open>uuidv4()\<close> returned, and
  \<^verbatim>\<open>t1\<close> and \<^verbatim>\<open>t2\<close> are the two readings of the clock, \<^verbatim>\<open>new Date()\<close> being
  evaluated once for \<^verbatim>\<open>createdAt\<close> and once more for \<^verbatim>\<open>updatedAt\<close>.
  The properties are listed in the order of their creation; the order in which the engine
  enumerates them when it serialises the object is part of \<^verbatim>\<open>json_stringify\<close>.
\<close>

definition new_card :: "string \<Rightarrow> int \<Rightarrow> int \<Rightarrow> jsval \<Rightarrow> jsval" where
  "new_card uuid t1 t2 cardData =
     JObj (assign (assign [(''id'', JStr uuid)] (own_properties cardData))
             [(''createdAt'', JStr (toISOString t1)), (''updatedAt'', JStr (toISOString t2))])"

text \<open>
  The update of the loaded array: \<^verbatim>\<open>findIndex\<close>, then the assignment at the index
  found or the \<^verbatim>\<open>push\<close>. Only an array has \<^verbatim>\<open>findIndex\<close>.
\<close>

definition put_card :: "jsval \<Rightarrow> jsval \<Rightarrow> error + jsval list" where
  "put_card cards newCard =
     (case cards of
        JArr xs \<Rightarrow>
          bindE (get_prop newCard ''id'') (\<lambda>newId.
          bindE (findIndex (\<lambda>crd. bindE (get_prop crd ''id'') (\<lambda>i. Inr (strict_eq i newId))) xs)
            (\<lambda>existingIndex.
               case existingIndex of
                 Some i \<Rightarrow> Inr (xs[i := newCard])
               | None \<Rightarrow> Inr (xs @ [newCard])))
      | _ \<Rightarrow> Inl TypeError)"

definition path_of :: "env \<Rightarrow> bool \<Rightarrow> string" where
  "path_of E isSentCard =
     (if isSentCard then sentCards_path (CONFIG E) else receivedCards_path (CONFIG E))"

definition saveCard ::
  "env \<Rightarrow> string \<Rightarrow> int \<Rightarrow> int \<Rightarrow> jsval \<Rightarrow> bool \<Rightarrow> cos_state \<Rightarrow> (error + jsval) \<times> cos_state" where
  "saveCard E uuid t1 t2 cardData isSentCard st =
     (case validateCardData cardData isSentCard of
        Inl e \<Rightarrow> (Inl e, st)
      | Inr u \<Rightarrow>
          (let path = path_of E isSentCard in
           case readFromCos E path st of
             (Inl e, st1) \<Rightarrow> (Inl e, st1)
           | (Inr cards, st1) \<Rightarrow>
               (let newCard = new_card uuid t1 t2 cardData in
                case put_card cards newCard of
                  Inl e \<Rightarrow> (Inl e, st1)
                | Inr cards' \<Rightarrow>
                    (case writeToCos E path (JArr cards') st1 of
                       (Inl e, st2) \<Rightarrow> (Inl e, st2)
                     | (Inr w, st2) \<Rightarrow> (Inr newCard, st2)))))"

definition deleteCard ::
  "env \<Rightarrow> jsval \<Rightarrow> bool \<Rightarrow> cos_state \<Rightarrow> (error + bool) \<times> cos_state" where
  "deleteCard E cardId isSentCard st =
     (if \<not> truthy cardId then (Inl (QslError msg_id_required 2002 400), st)
      else
        (let path = path_of E isSentCard in
         case readFromCos E path st of
           (Inl e, st1) \<Rightarrow> (Inl e, st1)
         | (Inr cards, st1) \<Rightarrow>
             (case cards of
                JArr xs \<Rightarrow>
                  (let initialLength = length xs in
                   case filterE (\<lambda>crd. bindE (get_prop crd ''id'')
                                   (\<lambda>i. Inr (\<not> strict_eq i cardId))) xs of
                     Inl e \<Rightarrow> (Inl e, st1)
                   | Inr filteredCards \<Rightarrow>
                       if length filteredCards = initialLength then
                         (Inl (QslError (msg_not_found_pre @ to_string cardId @ msg_not_found_post)
                                 2003 404), st1)
                       else
                         (case writeToCos E path (JArr filteredCards) st1 of
                            (Inl e, st2) \<Rightarrow> (Inl e, st2)
                          | (Inr w, st2) \<Rightarrow> (Inr True, st2)))
              | _ \<Rightarrow> (Inl TypeError, st1))))"

section \<open>Notions of the statements\<close>

text \<open>
  A value is nullish when reading a property of it throws. \<^verbatim>\<open>field k v\<close> is the value
  of \<^verbatim>\<open>v.k\<close> where that is defined. The ids of a collection are pairwise distinct
  when no two of them are equal under \<^verbatim>\<open>===\<close>, the equality by which \<^verbatim>\<open>saveCard\<close>
  and \<^verbatim>\<open>deleteCard\<close> find an entry.
\<close>

definition nullish :: "jsval \<Rightarrow> bool" where
  "nullish v \<longleftrightarrow> v = JUndefined \<or> v = JNull"

definition field :: "string \<Rightarrow> jsval \<Rightarrow> jsval" where
  "field k v = (case get_prop v k of Inr x \<Rightarrow> x | Inl e \<Rightarrow> JUndefined)"

fun js_distinct :: "jsval list \<Rightarrow> bool" where
  "js_distinct [] = True"
| "js_distinct (x # xs) = (list_all (\<lambda>y. \<not> strict_eq x y) xs \<and> js_distinct xs)"

definition ids :: "jsval list \<Rightarrow> jsval list" where
  "ids xs = map (field ''id'') xs"

text \<open>A primitive value: one that \<^verbatim>\<open>===\<close> compares by value.\<close>

fun primitive :: "jsval \<Rightarrow> bool" where
  "primitive (JArr xs) = False"
| "primitive (JObj kvs) = False"
| "primitive v = True"

text \<open>A field that is a string when it is there at all.\<close>

definition string_or_absent :: "jsval \<Rightarrow> bool" where
  "string_or_absent v \<longleftrightarrow> nullish v \<or> (\<exists>s. v = JStr s)"

text \<open>The index of the first element that satisfies a predicate.\<close>

fun first_index :: "('a \<Rightarrow> bool) \<Rightarrow> 'a list \<Rightarrow> nat option" where
  "first_index P [] = None"
| "first_index P (x # xs) = (if P x then Some 0 else map_option Suc (first_index P xs))"

text \<open>
  The label of the month that a card's date falls in: none when the date is missing,
  empty or not a date the engine can read.
\<close>

definition card_month :: "env \<Rightarrow> jsval \<Rightarrow> string option" where
  "card_month E c =
     (if truthy (field ''date'' c) then map_option (month_key E) (new_Date E (field ''date'' c))
      else None)"

text \<open>The label of the bucket of turn \<^verbatim>\<open>i\<close> of the loop of \<^verbatim>\<open>getChartData\<close>.\<close>

definition bucket_key :: "env \<Rightarrow> (nat \<Rightarrow> int) \<Rightarrow> nat \<Rightarrow> string" where
  "bucket_key E now i = month_key E (setMonth E (now i) (getMonth E (now i) - int i))"

text \<open>The number of the cards of a collection whose date falls in the month of a label.\<close>

definition month_count :: "env \<Rightarrow> jsval list \<Rightarrow> string \<Rightarrow> nat" where
  "month_count E xs k = length (filter (\<lambda>c. card_month E c = Some k) xs)"

text \<open>The turns of the loop, in the order in which it takes them, from \<^verbatim>\<open>n\<close> down to 0.\<close>

definition turns :: "nat \<Rightarrow> nat list" where
  "turns n = rev [0..<Suc n]"

text \<open>
  The bucket of a card in the mode breakdown, the counter with one more in a bucket, and
  the counter after the cards of a list.
\<close>

definition mode_label :: "env \<Rightarrow> jsval \<Rightarrow> string" where
  "mode_label E c =
     (case field ''mode'' c of
        JStr m \<Rightarrow> if toUpperCase E m \<noteq> [] then toUpperCase E m else ''OTHER''
      | _ \<Rightarrow> ''OTHER'')"

definition bump :: "string \<Rightarrow> (string \<times> nat) list \<Rightarrow> (string \<times> nat) list" where
  "bump k m = AList.update k ((case map_of m k of Some n \<Rightarrow> n | None \<Rightarrow> 0) + 1) m"

definition mode_counts ::
  "env \<Rightarrow> jsval list \<Rightarrow> (string \<times> nat) list \<Rightarrow> (string \<times> nat) list" where
  "mode_counts E xs m = foldl (\<lambda>acc c. bump (mode_label E c) acc) m xs"

text \<open>
  The country code of a card: the first two code units of its call sign, in upper case.
  The codes of the cards of a list are taken in two ways: of the cards whose call sign is
  a string, the empty string included, and of the cards whose call sign is not empty, which
  are the ones that \<^verbatim>\<open>getStats\<close> looks at.
\<close>

definition country_code :: "env \<Rightarrow> jsval \<Rightarrow> string" where
  "country_code E c = toUpperCase E (substring 0 2 (to_string (field ''callSign'' c)))"

fun is_string :: "jsval \<Rightarrow> bool" where
  "is_string (JStr s) = True"
| "is_string v = False"

definition country_codes_of_all :: "env \<Rightarrow> jsval list \<Rightarrow> string set" where
  "country_codes_of_all E xs =
     set (map (country_code E) (filter (\<lambda>c. is_string (field ''callSign'' c)) xs))"

definition country_codes :: "env \<Rightarrow> jsval list \<Rightarrow> string set" where
  "country_codes E xs =
     set (map (country_code E) (filter (\<lambda>c. truthy (field ''callSign'' c)) xs))"

text \<open>Equality of two strings up to the case of their letters.\<close>

definition ci_equal :: "env \<Rightarrow> string \<Rightarrow> string \<Rightarrow> bool" where
  "ci_equal E a b \<longleftrightarrow> toLowerCase E a = toLowerCase E b"

definition mode_is :: "env \<Rightarrow> string \<Rightarrow> jsval \<Rightarrow> bool" where
  "mode_is E m c \<longleftrightarrow> (case field ''mode'' c of JStr s \<Rightarrow> ci_equal E s m | _ \<Rightarrow> False)"

text \<open>
  The rules of the validator as the specification lists them, each with the message
  that reports it. Two of them can be read in two ways, and each reading is a parameter.
  The rule on the status of a received card applies when the status is present: as it is
  written, when the status is there; as the code has it, when the status is truthy. The
  rule on the date asks for a text that matches the pattern: as it is written, the date is
  that text, a string; as the code has it, the text is what the date converts to, whatever
  the date is.
\<close>

datatype rule = Rule_callSign | Rule_myCallSign | Rule_date | Rule_mode | Rule_cardType | Rule_status

definition rules :: "rule list" where
  "rules = [Rule_callSign, Rule_myCallSign, Rule_date, Rule_mode, Rule_cardType, Rule_status]"

fun rule_message :: "bool \<Rightarrow> rule \<Rightarrow> string" where
  "rule_message isSentCard Rule_callSign = msg_callSign"
| "rule_message isSentCard Rule_myCallSign = msg_myCallSign"
| "rule_message isSentCard Rule_date = msg_date"
| "rule_message isSentCard Rule_mode = msg_mode"
| "rule_message isSentCard Rule_cardType = msg_cardType"
| "rule_message isSentCard Rule_status =
     (if isSentCard then msg_sent_status else msg_received_status)"

definition nonblank_string :: "jsval \<Rightarrow> bool" where
  "nonblank_string v \<longleftrightarrow> (\<exists>s. v = JStr s \<and> trim s \<noteq> [])"


definition converted_text :: "jsval \<Rightarrow> string option" where
  "converted_text v = Some (to_string v)"

fun rule_holds ::
  "(jsval \<Rightarrow> bool) \<Rightarrow> (jsval \<Rightarrow> string option) \<Rightarrow> jsval \<Rightarrow> bool \<Rightarrow> rule \<Rightarrow> bool" where
  "rule_holds present text_of c isSentCard Rule_callSign = nonblank_string (field ''callSign'' c)"
| "rule_holds present text_of c isSentCard Rule_myCallSign =
     nonblank_string (field ''myCallSign'' c)"
| "rule_holds present text_of c isSentCard Rule_date =
     (case text_of (field ''date'' c) of Some s \<Rightarrow> date_pattern s | None \<Rightarrow> False)"
| "rule_holds present text_of c isSentCard Rule_mode = nonblank_string (field ''mode'' c)"
| "rule_holds present text_of c isSentCard Rule_cardType =
     (field ''cardType'' c = JStr ''online'' \<or> field ''cardType'' c = JStr ''physical'')"
| "rule_holds present text_of c isSentCard Rule_status =
     (if isSentCard then
        field ''status'' c = JStr ''pending'' \<or> field ''status'' c = JStr ''sent''
      else
        (if present (field ''status'' c) then
           field ''status'' c = JStr ''received'' \<or> field ''status'' c = JStr ''verified''
         else True))"


text \<open>
  A payload whose two call signs and mode are strings where they are present, as the data
  model has them.
\<close>

definition text_fields_typed :: "jsval \<Rightarrow> bool" where
  "text_fields_typed c \<longleftrightarrow>
     \<not> nullish c \<and> string_or_absent (field ''callSign'' c)
     \<and> string_or_absent (field ''myCallSign'' c) \<and> string_or_absent (field ''mode'' c)"

text \<open>The messages of the rules that a payload breaks, in the order of the rules.\<close>

definition broken_rules ::
  "(jsval \<Rightarrow> bool) \<Rightarrow> (jsval \<Rightarrow> string option) \<Rightarrow> jsval \<Rightarrow> bool \<Rightarrow> rule list" where
  "broken_rules present text_of c isSentCard =
     filter (\<lambda>r. \<not> rule_holds present text_of c isSentCard r) rules"

text \<open>The payload binds the key: it has an own property of that name.\<close>

definition has_own :: "string \<Rightarrow> jsval \<Rightarrow> bool" where
  "has_own k v = (case v of JObj kvs \<Rightarrow> k \<in> fst ` set kvs | _ \<Rightarrow> False)"

text \<open>
  The collection after \<^verbatim>\<open>saveCard\<close> has put the record \<^verbatim>\<open>c\<close> into the collection
  \<^verbatim>\<open>xs\<close>: in the place of the first entry that has its id, or at the end.
\<close>

definition upserted :: "jsval list \<Rightarrow> jsval \<Rightarrow> jsval list" where
  "upserted xs c =
     (case first_index (\<lambda>x. strict_eq (field ''id'' x) (field ''id'' c)) xs of
        Some i \<Rightarrow> xs[i := c]
      | None \<Rightarrow> xs @ [c])"

text \<open>
  The codec gives back a value that it has written: the text is not blank, and it parses
  to the value.
\<close>

definition round_trips :: "env \<Rightarrow> jsval \<Rightarrow> bool" where
  "round_trips E v \<longleftrightarrow>
     trim (json_stringify E v) \<noteq> [] \<and> json_parse E (trim (json_stringify E v)) = Inr v"

section \<open>Scenario data\<close>

text \<open>
  Concrete cards, payloads and collections for evaluating the operations, each collection
  with the JSON text that stands for it in the store.
\<close>

definition card_a1 :: jsval where
  "card_a1 =
     JObj [(''id'', JStr ''a1''), (''callSign'', JStr ''JA1ABC''), (''myCallSign'', JStr
      ''BG2AAA''), (''date'', JStr ''2024-01-15''), (''mode'', JStr ''CW''), (''cardType'',
      JStr ''online''), (''status'', JStr ''pending''), (''note'', JStr ''first contact''),
      (''createdAt'', JStr ''2024-01-15T08:00:00.000Z''), (''updatedAt'', JStr
      ''2024-01-15T08:00:00.000Z'')]"

definition payload_new :: jsval where
  "payload_new =
     JObj [(''callSign'', JStr ''W1XYZ''), (''myCallSign'', JStr ''BG2AAA''), (''date'', JStr
      ''2024-02-10''), (''mode'', JStr ''EYE''), (''cardType'', JStr ''online''), (''status'',
      JStr ''pending'')]"

definition payload_custom :: jsval where
  "payload_custom =
     JObj [(''id'', JStr ''custom-7''), (''callSign'', JStr ''W1XYZ''), (''myCallSign'', JStr
      ''BG2AAA''), (''date'', JStr ''2024-02-10''), (''mode'', JStr ''EYE''), (''cardType'',
      JStr ''online''), (''status'', JStr ''pending'')]"

definition payload_update :: jsval where
  "payload_update =
     JObj [(''id'', JStr ''a1''), (''callSign'', JStr ''JA1ABC''), (''myCallSign'', JStr
      ''BG2AAA''), (''date'', JStr ''2024-01-15''), (''mode'', JStr ''CW''), (''cardType'',
      JStr ''physical''), (''status'', JStr ''sent'')]"

definition card_added :: jsval where
  "card_added =
     JObj [(''id'', JStr ''9b2f6c1e-5d47-4a1b-8c3e-2f7a9d0b6e11''), (''callSign'', JStr
      ''W1XYZ''), (''myCallSign'', JStr ''BG2AAA''), (''date'', JStr ''2024-02-10''),
      (''mode'', JStr ''EYE''), (''cardType'', JStr ''online''), (''status'', JStr
      ''pending''), (''createdAt'', JStr ''2024-02-01T00:00:00.000Z''), (''updatedAt'', JStr
      ''2024-02-01T00:00:00.001Z'')]"

definition card_custom :: jsval where
  "card_custom =
     JObj [(''id'', JStr ''custom-7''), (''callSign'', JStr ''W1XYZ''), (''myCallSign'', JStr
      ''BG2AAA''), (''date'', JStr ''2024-02-10''), (''mode'', JStr ''EYE''), (''cardType'',
      JStr ''online''), (''status'', JStr ''pending''), (''createdAt'', JStr
      ''2024-02-01T00:00:00.000Z''), (''updatedAt'', JStr ''2024-02-01T00:00:00.001Z'')]"

definition card_updated :: jsval where
  "card_updated =
     JObj [(''id'', JStr ''a1''), (''callSign'', JStr ''JA1ABC''), (''myCallSign'', JStr
      ''BG2AAA''), (''date'', JStr ''2024-01-15''), (''mode'', JStr ''CW''), (''cardType'',
      JStr ''physical''), (''status'', JStr ''sent''), (''createdAt'', JStr
      ''2024-02-01T00:00:00.000Z''), (''updatedAt'', JStr ''2024-02-01T00:00:00.001Z'')]"

definition cards_doc :: jsval where
  "cards_doc =
     JArr [card_a1]"

definition cards_text :: string where
  \<open>cards_text =
     ''[\<newline>  {\<newline>    "id": "a1",\<newline>''
     @ ''    "callSign": "JA1ABC",\<newline>    "myCallSign": "BG2AAA",\<newline>''
     @ ''    "date": "2024-01-15",\<newline>    "mode": "CW",\<newline>''
     @ ''    "cardType": "online",\<newline>    "status": "pending",\<newline>''
     @ ''    "note": "first contact",\<newline>''
     @ ''    "createdAt": "2024-01-15T08:00:00.000Z",\<newline>''
     @ ''    "updatedAt": "2024-01-15T08:00:00.000Z"\<newline>  }\<newline>]''\<close>

definition cards_added_doc :: jsval where
  "cards_added_doc =
     JArr [card_a1, card_added]"

definition cards_added_text :: string where
  \<open>cards_added_text =
     ''[\<newline>  {\<newline>    "id": "a1",\<newline>''
     @ ''    "callSign": "JA1ABC",\<newline>    "myCallSign": "BG2AAA",\<newline>''
     @ ''    "date": "2024-01-15",\<newline>    "mode": "CW",\<newline>''
     @ ''    "cardType": "online",\<newline>    "status": "pending",\<newline>''
     @ ''    "note": "first contact",\<newline>''
     @ ''    "createdAt": "2024-01-15T08:00:00.000Z",\<newline>''
     @ ''    "updatedAt": "2024-01-15T08:00:00.000Z"\<newline>  },\<newline>''
     @ ''  {\<newline>    "id": "9b2f6c1e-5d47-4a1b-8c3e-2f7a9d0b6e11",\<newline>''
     @ ''    "callSign": "W1XYZ",\<newline>    "myCallSign": "BG2AAA",\<newline>''
     @ ''    "date": "2024-02-10",\<newline>    "mode": "EYE",\<newline>''
     @ ''    "cardType": "online",\<newline>    "status": "pending",\<newline>''
     @ ''    "createdAt": "2024-02-01T00:00:00.000Z",\<newline>''
     @ ''    "updatedAt": "2024-02-01T00:00:00.001Z"\<newline>  }\<newline>]''\<close>

definition cards_custom_doc :: jsval where
  "cards_custom_doc =
     JArr [card_a1, card_custom]"

definition cards_custom_text :: string where
  \<open>cards_custom_text =
     ''[\<newline>  {\<newline>    "id": "a1",\<newline>''
     @ ''    "callSign": "JA1ABC",\<newline>    "myCallSign": "BG2AAA",\<newline>''
     @ ''    "date": "2024-01-15",\<newline>    "mode": "CW",\<newline>''
     @ ''    "cardType": "online",\<newline>    "status": "pending",\<newline>''
     @ ''    "note": "first contact",\<newline>''
     @ ''    "createdAt": "2024-01-15T08:00:00.000Z",\<newline>''
     @ ''    "updatedAt": "2024-01-15T08:00:00.000Z"\<newline>  },\<newline>''
     @ ''  {\<newline>    "id": "custom-7",\<newline>    "callSign": "W1XYZ",\<newline>''
     @ ''    "myCallSign": "BG2AAA",\<newline>    "date": "2024-02-10",\<newline>''
     @ ''    "mode": "EYE",\<newline>    "cardType": "online",\<newline>''
     @ ''    "status": "pending",\<newline>''
     @ ''    "createdAt": "2024-02-01T00:00:00.000Z",\<newline>''
     @ ''    "updatedAt": "2024-02-01T00:00:00.001Z"\<newline>  }\<newline>]''\<close>

definition cards_updated_doc :: jsval where
  "cards_updated_doc =
     JArr [card_updated]"

definition cards_updated_text :: string where
  \<open>cards_updated_text =
     ''[\<newline>  {\<newline>    "id": "a1",\<newline>''
     @ ''    "callSign": "JA1ABC",\<newline>    "myCallSign": "BG2AAA",\<newline>''
     @ ''    "date": "2024-01-15",\<newline>    "mode": "CW",\<newline>''
     @ ''    "cardType": "physical",\<newline>    "status": "sent",\<newline>''
     @ ''    "createdAt": "2024-02-01T00:00:00.000Z",\<newline>''
     @ ''    "updatedAt": "2024-02-01T00:00:00.001Z"\<newline>  }\<newline>]''\<close>

definition stats_sent_doc :: jsval where
  "stats_sent_doc =
     JArr [JObj [(''callSign'', JStr ''JA1ABC''), (''mode'', JStr ''CW''), (''status'', JStr
      ''pending'')]]"

definition stats_sent_text :: string where
  \<open>stats_sent_text =
     ''[\<newline>  {\<newline>    "callSign": "JA1ABC",\<newline>''
     @ ''    "mode": "CW",\<newline>    "status": "pending"\<newline>  }\<newline>]''\<close>

definition stats_received_doc :: jsval where
  "stats_received_doc =
     JArr [JObj [(''callSign'', JStr ''W1XYZ''), (''mode'', JStr ''EYE'')]]"

definition stats_received_text :: string where
  \<open>stats_received_text =
     ''[\<newline>  {\<newline>    "callSign": "W1XYZ",\<newline>''
     @ ''    "mode": "EYE"\<newline>  }\<newline>]''\<close>

definition chart_sent_doc :: jsval where
  "chart_sent_doc =
     JArr [JObj [(''date'', JStr ''2024-01-15'')], JObj [(''date'', JStr ''2024-02-01'')], JObj
      [(''callSign'', JStr ''JA1ABC'')], JObj [(''date'', JStr ''soon'')]]"

definition chart_sent_text :: string where
  \<open>chart_sent_text =
     ''[\<newline>  {\<newline>    "date": "2024-01-15"\<newline>  },\<newline>''
     @ ''  {\<newline>    "date": "2024-02-01"\<newline>  },\<newline>  {\<newline>''
     @ ''    "callSign": "JA1ABC"\<newline>  },\<newline>  {\<newline>''
     @ ''    "date": "soon"\<newline>  }\<newline>]''\<close>

definition chart_received_doc :: jsval where
  "chart_received_doc =
     JArr [JObj [(''date'', JStr ''2024-02-10'')]]"

definition chart_received_text :: string where
  \<open>chart_received_text =
     ''[\<newline>  {\<newline>    "date": "2024-02-10"\<newline>  }\<newline>]''\<close>

text \<open>
  Collections whose call signs and modes are in lower and in mixed case, one of them with an
  empty call sign, and two call signs that begin with the character U+4E2D, which is
  one code unit.
\<close>

definition zhong :: string where
  "zhong = [CHR 0xE4, CHR 0xB8, CHR 0xAD]"

definition calls_sent_doc :: jsval where
  "calls_sent_doc =
     JArr [JObj [(''callSign'', JStr ''ja1abc''), (''mode'', JStr ''CW''),
                 (''status'', JStr ''pending'')],
           JObj [(''callSign'', JStr ''JA9zz''), (''mode'', JStr ''eye''),
                 (''status'', JStr ''sent'')],
           JObj [(''callSign'', JStr []), (''mode'', JStr ''Eye'')]]"

definition calls_sent_text :: string where
  \<open>calls_sent_text =
     ''[\<newline>  {\<newline>    "callSign": "ja1abc",\<newline>''
     @ ''    "mode": "CW",\<newline>    "status": "pending"\<newline>  },\<newline>''
     @ ''  {\<newline>    "callSign": "JA9zz",\<newline>''
     @ ''    "mode": "eye",\<newline>    "status": "sent"\<newline>  },\<newline>''
     @ ''  {\<newline>    "callSign": "",\<newline>''
     @ ''    "mode": "Eye"\<newline>  }\<newline>]''\<close>

definition calls_received_doc :: jsval where
  "calls_received_doc =
     JArr [JObj [(''callSign'', JStr (zhong @ ''A''))],
           JObj [(''callSign'', JStr (zhong @ ''B''))],
           JObj [(''mode'', JStr ''EYES'')]]"

definition calls_received_text :: string where
  \<open>calls_received_text =
     ''[\<newline>  {\<newline>    "callSign": "'' @ zhong @ ''A"\<newline>  },\<newline>''
     @ ''  {\<newline>    "callSign": "'' @ zhong @ ''B"\<newline>  },\<newline>''
     @ ''  {\<newline>    "mode": "EYES"\<newline>  }\<newline>]''\<close>

text \<open>A collection of one card that has the empty string for a call sign.\<close>

definition unsigned_doc :: jsval where
  "unsigned_doc = JArr [JObj [(''callSign'', JStr []), (''mode'', JStr ''CW'')]]"

definition unsigned_text :: string where
  \<open>unsigned_text =
     ''[\<newline>  {\<newline>    "callSign": "",\<newline>''
     @ ''    "mode": "CW"\<newline>  }\<newline>]''\<close>

text \<open>A collection of one card that has a number for a call sign.\<close>

definition numbered_doc :: jsval where
  "numbered_doc = JArr [JObj [(''callSign'', JNum ''73'')]]"

definition numbered_text :: string where
  \<open>numbered_text = ''[\<newline>  {\<newline>    "callSign": 73\<newline>  }\<newline>]''\<close>


definition card_twin :: jsval where
  "card_twin =
     JObj [(''id'', JArr [JNum ''1'']), (''callSign'', JStr ''W1XYZ''), (''myCallSign'', JStr
      ''BG2AAA''), (''date'', JStr ''2024-02-10''), (''mode'', JStr ''EYE''), (''cardType'',
      JStr ''online''), (''status'', JStr ''pending''), (''createdAt'', JStr
      ''2024-02-01T00:00:00.000Z''), (''updatedAt'', JStr ''2024-02-01T00:00:00.001Z'')]"

definition twin_doc :: jsval where
  "twin_doc = JArr [card_twin]"

definition twin_text :: string where
  \<open>twin_text =
     ''[\<newline>  {\<newline>    "id": [\<newline>      1\<newline>    ],\<newline>''
     @ ''    "callSign": "W1XYZ",\<newline>    "myCallSign": "BG2AAA",\<newline>''
     @ ''    "date": "2024-02-10",\<newline>    "mode": "EYE",\<newline>''
     @ ''    "cardType": "online",\<newline>    "status": "pending",\<newline>''
     @ ''    "createdAt": "2024-02-01T00:00:00.000Z",\<newline>''
     @ ''    "updatedAt": "2024-02-01T00:00:00.001Z"\<newline>  }\<newline>]''\<close>

definition twins_doc :: jsval where
  "twins_doc = JArr [card_twin, card_twin]"

definition twins_text :: string where
  \<open>twins_text =
     ''[\<newline>  {\<newline>    "id": [\<newline>      1\<newline>    ],\<newline>''
     @ ''    "callSign": "W1XYZ",\<newline>    "myCallSign": "BG2AAA",\<newline>''
     @ ''    "date": "2024-02-10",\<newline>    "mode": "EYE",\<newline>''
     @ ''    "cardType": "online",\<newline>    "status": "pending",\<newline>''
     @ ''    "createdAt": "2024-02-01T00:00:00.000Z",\<newline>''
     @ ''    "updatedAt": "2024-02-01T00:00:00.001Z"\<newline>  },\<newline>''
     @ ''  {\<newline>    "id": [\<newline>      1\<newline>    ],\<newline>''
     @ ''    "callSign": "W1XYZ",\<newline>    "myCallSign": "BG2AAA",\<newline>''
     @ ''    "date": "2024-02-10",\<newline>    "mode": "EYE",\<newline>''
     @ ''    "cardType": "online",\<newline>    "status": "pending",\<newline>''
     @ ''    "createdAt": "2024-02-01T00:00:00.000Z",\<newline>''
     @ ''    "updatedAt": "2024-02-01T00:00:00.001Z"\<newline>  }\<newline>]''\<close>






text \<open>
  The id that \<^verbatim>\<open>uuidv4()\<close> returns in the scenarios, and two readings of the clock a
  millisecond apart: 2024-02-01T00:00:00.000Z and 2024-02-01T00:00:00.001Z.
\<close>

definition fresh_uuid :: string where
  "fresh_uuid = ''9b2f6c1e-5d47-4a1b-8c3e-2f7a9d0b6e11''"

definition clock1 :: int where
  "clock1 = 1706745600000"

definition clock2 :: int where
  "clock2 = 1706745600001"

text \<open>
  Two clocks for the six turns of the loop of \<^verbatim>\<open>getChartData\<close>: the first turn, turn 5,
  reads noon UTC of 15 February 2024, or of 31 March 2024, and every turn after it reads
  one millisecond more.
\<close>

definition mid_february :: "nat \<Rightarrow> int" where
  "mid_february i = 1707998400000 + (5 - int i)"

definition end_of_march :: "nat \<Rightarrow> int" where
  "end_of_march i = 1711886400000 + (5 - int i)"

text \<open>
  A concrete environment: the codec is the table of the collections above, the process
  runs in UTC, the engine reads no date but the plain \<^verbatim>\<open>YYYY-MM-DD\<close> ones, and the
  case conversions leave a string that is not all ASCII as it is (the character U+4E2D
  has no case).
\<close>

definition scenario_docs :: "(string \<times> jsval) list" where
  "scenario_docs =
     [(''[]'', JArr []), (cards_text, cards_doc), (cards_added_text, cards_added_doc),
      (cards_custom_text, cards_custom_doc), (cards_updated_text, cards_updated_doc),
      (stats_sent_text, stats_sent_doc), (stats_received_text, stats_received_doc),
      (chart_sent_text, chart_sent_doc), (chart_received_text, chart_received_doc),
      (calls_sent_text, calls_sent_doc), (calls_received_text, calls_received_doc),
      (unsigned_text, unsigned_doc), (numbered_text, numbered_doc), (twin_text, twin_doc),
      (twins_text, twins_doc)]"

definition scenario_parse :: "string \<Rightarrow> string + jsval" where
  "scenario_parse s =
     (case map_of scenario_docs s of Some v \<Rightarrow> Inr v | None \<Rightarrow> Inl ''Unexpected token'')"

definition scenario_stringify :: "jsval \<Rightarrow> string" where
  "scenario_stringify v =
     (case map_of (map (\<lambda>(s, d). (d, s)) scenario_docs) v of Some s \<Rightarrow> s | None \<Rightarrow> ''null'')"

definition scenario_env :: env where
  "scenario_env =
     \<lparr>CONFIG = \<lparr>bucket = ''qsl-1250000000'', region = ''ap-guangzhou'',
                 sentCards_path = ''qsl/sent.json'',
                 receivedCards_path = ''qsl/received.json''\<rparr>,
      json_parse = scenario_parse, json_stringify = scenario_stringify,
      legacy_date = (\<lambda>v. None), unicode_upper = (\<lambda>s. s), unicode_lower = (\<lambda>s. s),
      LocalTZA = (\<lambda>t isUTC. 0)\<rparr>"

text \<open>
  Stores: one with no blob, one whose sent collection holds the card \<^verbatim>\<open>a1\<close>, and the
  stores of the statistics and the chart scenarios. None of them rejects a request.
\<close>

definition store_of :: "(string \<times> string) list \<Rightarrow> cos_state" where
  "store_of blobs = \<lparr>objects = map_of blobs, faults = [], calls = []\<rparr>"

definition empty_store :: cos_state where
  "empty_store = store_of []"

definition cards_store :: cos_state where
  "cards_store = store_of [(''qsl/sent.json'', cards_text)]"

definition stats_store :: cos_state where
  "stats_store =
     store_of [(''qsl/sent.json'', stats_sent_text), (''qsl/received.json'', stats_received_text)]"

definition chart_store :: cos_state where
  "chart_store =
     store_of [(''qsl/sent.json'', chart_sent_text), (''qsl/received.json'', chart_received_text)]"

definition calls_store :: cos_state where
  "calls_store =
     store_of [(''qsl/sent.json'', calls_sent_text), (''qsl/received.json'', calls_received_text)]"

definition unsigned_store :: cos_state where
  "unsigned_store = store_of [(''qsl/sent.json'', unsigned_text)]"

definition numbered_store :: cos_state where
  "numbered_store = store_of [(''qsl/sent.json'', numbered_text)]"


text \<open>
  Stores for the cases of a load: a blob of white space only (a space, an ideographic
  space U+3000, a line feed and a no-break space U+00A0), a blob that is the collection
  of the card \<^verbatim>\<open>a1\<close> after a byte order mark U+FEFF and before a line feed, and the
  store of the card \<^verbatim>\<open>a1\<close> about to reject a request, for want of rights or because
  the key is gone.
\<close>

definition blank_text :: string where
  "blank_text = '' '' @ [CHR 0xE3, CHR 0x80, CHR 0x80] @ ''\<newline>'' @ [CHR 0xC2, CHR 0xA0]"

definition blank_store :: cos_state where
  "blank_store = store_of [(''qsl/sent.json'', blank_text)]"

definition marked_text :: string where
  "marked_text = [CHR 0xEF, CHR 0xBB, CHR 0xBF] @ cards_text @ ''\<newline>''"

definition marked_store :: cos_state where
  "marked_store = store_of [(''qsl/sent.json'', marked_text)]"

definition denied_store :: cos_state where
  "denied_store =
     cards_store\<lparr>faults :=
       [Some \<lparr>code = ''AccessDenied'', message = ''Access Denied.'', requestId = ''NjE4''\<rparr>]\<rparr>"

definition vanished_store :: cos_state where
  "vanished_store =
     cards_store\<lparr>faults :=
       [Some \<lparr>code = ''NoSuchKey'', message = ''The specified key does not exist.'',
               requestId = ''NjE5''\<rparr>]\<rparr>"

text \<open>The environment of a process that runs five hours west of UTC.\<close>

definition western_env :: env where
  "western_env = scenario_env\<lparr>LocalTZA := (\<lambda>t isUTC. - 18000000)\<rparr>"

section \<open>Properties of the collection store\<close>

lemma isArray_iff: "isArray d \<longleftrightarrow> (\<exists>xs. d = JArr xs)"
  by (cases d) auto

text \<open>
  Claim C5. \<^verbatim>\<open>writeToCos\<close> called with a value that is not an array fails with the typed
  failure 1002/400 and leaves the store as it was: its log gains no request. Called with an
  array it always sends one \<^verbatim>\<open>putObject\<close> carrying the serialised array, whatever
  the blob held before; when the store serves the request the blob becomes that text.
\<close>

theorem writeToCos_array_guard:
  "(\<not> isArray d \<longrightarrow>
      writeToCos E key d st = (Inl (QslError msg_write_not_array 1002 400), st))
   \<and> (isArray d \<longrightarrow>
      calls (snd (writeToCos E key d st)) = calls st @ [PutObject key (json_stringify E d)]
      \<and> (next_fault st = None \<longrightarrow>
           fst (writeToCos E key d st) = Inr ()
           \<and> objects (snd (writeToCos E key d st)) = (objects st)(key \<mapsto> json_stringify E d)))"
  by (auto simp: writeToCos_def putObject_def Let_def split: option.splits)

theorem writeToCos_array_guard_witness:
  "\<not> isArray (JObj [(''id'', JStr ''a'')])
   \<and> writeToCos scenario_env ''qsl/sent.json'' (JObj [(''id'', JStr ''a'')]) empty_store
       = (Inl (QslError msg_write_not_array 1002 400), empty_store)
   \<and> calls empty_store = []
   \<and> isArray (JArr [])
   \<and> next_fault empty_store = None
   \<and> calls (snd (writeToCos scenario_env ''qsl/sent.json'' (JArr []) empty_store))
       = [PutObject ''qsl/sent.json'' ''[]'']
   \<and> fst (writeToCos scenario_env ''qsl/sent.json'' (JArr []) empty_store) = Inr ()
   \<and> objects (snd (writeToCos scenario_env ''qsl/sent.json'' (JArr []) empty_store)) ''qsl/sent.json''
       = Some ''[]''"
  using writeToCos_array_guard [of "JObj [(''id'', JStr ''a'')]" scenario_env "''qsl/sent.json''" empty_store]
        writeToCos_array_guard [of "JArr []" scenario_env "''qsl/sent.json''" empty_store]
  by (simp add: empty_store_def store_of_def next_fault_def scenario_env_def scenario_stringify_def
      scenario_docs_def)

lemma concat_units: "concat (units s) = s"
  by (induction s rule: units.induct) simp_all

lemma units_nonempty: "[] \<notin> set (units s)"
  by (induction s rule: units.induct) simp_all

lemma trim_Nil_iff: "trim s = [] \<longleftrightarrow> list_all is_space (units s)"
proof -
  have ne: "\<And>xs. set xs \<subseteq> set (units s) \<Longrightarrow> concat xs = [] \<longleftrightarrow> xs = []"
    using units_nonempty [of s] by (cases rule: list.exhaust) auto
  have a: "dropWhile is_space (units s) = [] \<longleftrightarrow> list_all is_space (units s)"
    by (simp add: dropWhile_eq_Nil_conv list_all_iff)
  have s1: "set (rev (dropWhile is_space (rev (dropWhile is_space (units s))))) \<subseteq> set (units s)"
    by (metis set_dropWhileD set_rev subsetI)
  have "trim s = [] \<longleftrightarrow> dropWhile is_space (rev (dropWhile is_space (units s))) = []"
    unfolding trim_def using ne [OF s1] by simp
  also have "\<dots> \<longleftrightarrow> dropWhile is_space (units s) = []"
  proof
    assume h: "dropWhile is_space (rev (dropWhile is_space (units s))) = []"
    show "dropWhile is_space (units s) = []"
    proof (rule ccontr)
      assume n: "dropWhile is_space (units s) \<noteq> []"
      then have "\<not> is_space (hd (dropWhile is_space (units s)))"
        by (rule hd_dropWhile)
      moreover from h have "\<forall>x\<in>set (dropWhile is_space (units s)). is_space x"
        by (simp add: dropWhile_eq_Nil_conv)
      ultimately show False using n by (metis list.set_sel(1))
    qed
  next
    assume e: "dropWhile is_space (units s) = []"
    show "dropWhile is_space (rev (dropWhile is_space (units s))) = []"
      unfolding e by simp
  qed
  finally show ?thesis using a by simp
qed

text \<open>
  Claim C4. \<^verbatim>\<open>readFromCos\<close> returns the empty sequence, and no failure, when the store
  reports the blob as not found (the key was never written, or the request fails with the
  code \<^verbatim>\<open>NoSuchKey\<close>) and when the blob is empty or white space only, the white space
  being all that \<^verbatim>\<open>trim\<close> strips. These are the two cases in which the empty sequence
  stands in for a blob: in every other case the result is what the blob's text, with the
  white space at its two ends stripped, parses to, or a typed failure.
\<close>

theorem readFromCos_empty_sequence:
  "(next_fault st = None \<and> objects st key = None \<longrightarrow>
      fst (readFromCos E key st) = Inr (JArr []))
   \<and> (next_fault st = Some f \<and> code f = ''NoSuchKey'' \<longrightarrow>
      fst (readFromCos E key st) = Inr (JArr []))
   \<and> (next_fault st = None \<and> objects st key = Some body \<and> list_all is_space (units body) \<longrightarrow>
      fst (readFromCos E key st) = Inr (JArr []))
   \<and> (next_fault st = None \<and> objects st key = Some body \<and> \<not> list_all is_space (units body) \<longrightarrow>
      fst (readFromCos E key st) =
        (case json_parse E (trim body) of
           Inr v \<Rightarrow> Inr v
         | Inl m \<Rightarrow> Inl (QslError (msg_read_failed @ m @ '' (undefined)'') 1005 500)))
   \<and> (next_fault st = Some f \<and> code f \<noteq> ''NoSuchKey'' \<longrightarrow>
      (\<exists>m c s. fst (readFromCos E key st) = Inl (QslError m c s)))"
  by (auto simp: readFromCos_def getObject_def read_catch_def no_such_key_def Let_def trim_Nil_iff
           split: option.splits sum.splits)

lemma trim_cards_text: "trim cards_text = cards_text"
  by code_simp

lemma trim_marked_text: "trim marked_text = cards_text"
  by code_simp

lemma units_blank_text:
  "units blank_text = ['' '', [CHR 0xE3, CHR 0x80, CHR 0x80], ''\<newline>'', [CHR 0xC2, CHR 0xA0]]"
  by code_simp

lemma parse_cards_text: "scenario_parse cards_text = Inr cards_doc"
  by (simp add: scenario_parse_def scenario_docs_def cards_text_def)

theorem readFromCos_empty_sequence_witness:
  "next_fault empty_store = None \<and> objects empty_store ''qsl/sent.json'' = None
   \<and> fst (readFromCos scenario_env ''qsl/sent.json'' empty_store) = Inr (JArr [])
   \<and> next_fault vanished_store = Some (the (hd (faults vanished_store)))
   \<and> code (the (hd (faults vanished_store))) = ''NoSuchKey''
   \<and> fst (readFromCos scenario_env ''qsl/sent.json'' vanished_store) = Inr (JArr [])
   \<and> next_fault blank_store = None \<and> objects blank_store ''qsl/sent.json'' = Some blank_text
   \<and> list_all is_space (units blank_text)
   \<and> fst (readFromCos scenario_env ''qsl/sent.json'' blank_store) = Inr (JArr [])
   \<and> next_fault marked_store = None \<and> objects marked_store ''qsl/sent.json'' = Some marked_text
   \<and> \<not> list_all is_space (units marked_text)
   \<and> fst (readFromCos scenario_env ''qsl/sent.json'' marked_store) = Inr cards_doc
   \<and> next_fault denied_store = Some (the (hd (faults denied_store)))
   \<and> code (the (hd (faults denied_store))) \<noteq> ''NoSuchKey''
   \<and> fst (readFromCos scenario_env ''qsl/sent.json'' denied_store)
       = Inl (QslError (msg_access_denied @ ''NjE4)'') 1002 403)"
proof -
  have a: "next_fault empty_store = None \<and> objects empty_store ''qsl/sent.json'' = None"
    by (simp add: empty_store_def store_of_def next_fault_def)
  have b: "next_fault vanished_store = Some (the (hd (faults vanished_store)))
           \<and> code (the (hd (faults vanished_store))) = ''NoSuchKey''"
    by (simp add: vanished_store_def next_fault_def)
  have c: "next_fault blank_store = None \<and> objects blank_store ''qsl/sent.json'' = Some blank_text
           \<and> list_all is_space (units blank_text)"
    by (simp add: blank_store_def store_of_def next_fault_def units_blank_text is_space_def
        white_space_def)
  have n: "trim marked_text \<noteq> []"
    by (simp add: trim_marked_text cards_text_def)
  have d: "next_fault marked_store = None \<and> objects marked_store ''qsl/sent.json'' = Some marked_text
           \<and> \<not> list_all is_space (units marked_text)"
    using n by (simp add: marked_store_def store_of_def next_fault_def trim_Nil_iff)
  have e: "next_fault denied_store = Some (the (hd (faults denied_store)))
           \<and> code (the (hd (faults denied_store))) \<noteq> ''NoSuchKey''"
    by (simp add: denied_store_def next_fault_def)
  have p: "json_parse scenario_env (trim marked_text) = Inr cards_doc"
    by (simp add: scenario_env_def trim_marked_text parse_cards_text)
  have f: "fst (readFromCos scenario_env ''qsl/sent.json'' denied_store)
       = Inl (QslError (msg_access_denied @ ''NjE4)'') 1002 403)"
    by (simp add: readFromCos_def getObject_def read_catch_def denied_store_def next_fault_def)
  note t = readFromCos_empty_sequence
  from a b c d e f p
    t [where st = empty_store and key = "''qsl/sent.json''" and E = scenario_env]
    t [where st = vanished_store and key = "''qsl/sent.json''" and E = scenario_env
         and f = "the (hd (faults vanished_store))"]
    t [where st = blank_store and key = "''qsl/sent.json''" and E = scenario_env
         and body = blank_text]
    t [where st = marked_store and key = "''qsl/sent.json''" and E = scenario_env
         and body = marked_text]
  show ?thesis by simp
qed

section \<open>Properties of the write operations\<close>

lemma readFromCos_store:
  assumes "readFromCos E key st = (r, st1)"
  shows "objects st1 = objects st" and "calls st1 = calls st @ [GetObject key]"
    and "faults st1 = tl (faults st)"
  using assms
  by (auto simp: readFromCos_def getObject_def Let_def split: option.splits sum.splits if_splits)

lemma get_prop_field: "\<not> nullish c \<Longrightarrow> get_prop c k = Inr (field k c)"
  by (cases c) (simp_all add: nullish_def field_def)

lemma filterE_fields:
  "list_all (\<lambda>c. \<not> nullish c) xs \<Longrightarrow>
     filterE (\<lambda>c. bindE (get_prop c k) (\<lambda>i. Inr (P i))) xs = Inr (filter (\<lambda>c. P (field k c)) xs)"
  by (induction xs) (simp_all add: get_prop_field bindE_def)

lemma cards_text_nonempty: "cards_text \<noteq> []"
  by (simp add: cards_text_def)

lemma load_cards_store:
  "readFromCos scenario_env ''qsl/sent.json'' cards_store
     = (Inr cards_doc, cards_store\<lparr>calls := [GetObject ''qsl/sent.json'']\<rparr>)"
  by (simp add: readFromCos_def getObject_def next_fault_def cards_store_def store_of_def
      trim_cards_text scenario_env_def parse_cards_text cards_text_nonempty)

text \<open>
  Claim C2. \<^verbatim>\<open>deleteCard\<close> with an empty id fails with the typed failure 2002/400 before
  anything is loaded: the store is as it was. With an id that no entry of the loaded
  collection has, it fails with the typed failure 2003/404, and the only request made is
  the load: the blobs are unchanged.
\<close>

theorem deleteCard_unknown_id:
  "(\<not> truthy cardId \<longrightarrow>
      deleteCard E cardId isSentCard st = (Inl (QslError msg_id_required 2002 400), st))
   \<and> (truthy cardId \<and> readFromCos E (path_of E isSentCard) st = (Inr (JArr xs), st1)
       \<and> list_all (\<lambda>c. \<not> nullish c) xs \<and> list_all (\<lambda>i. \<not> strict_eq i cardId) (ids xs) \<longrightarrow>
      deleteCard E cardId isSentCard st
        = (Inl (QslError (msg_not_found_pre @ to_string cardId @ msg_not_found_post) 2003 404), st1)
      \<and> objects st1 = objects st
      \<and> calls st1 = calls st @ [GetObject (path_of E isSentCard)])"
proof (intro conjI impI)
  assume "\<not> truthy cardId"
  then show "deleteCard E cardId isSentCard st = (Inl (QslError msg_id_required 2002 400), st)"
    by (simp add: deleteCard_def)
next
  assume h: "truthy cardId \<and> readFromCos E (path_of E isSentCard) st = (Inr (JArr xs), st1)
       \<and> list_all (\<lambda>c. \<not> nullish c) xs \<and> list_all (\<lambda>i. \<not> strict_eq i cardId) (ids xs)"
  then have keep: "filter (\<lambda>c. \<not> strict_eq (field ''id'' c) cardId) xs = xs"
    by (simp add: ids_def list_all_iff)
  from h have "filterE (\<lambda>crd. bindE (get_prop crd ''id'') (\<lambda>i. Inr (\<not> strict_eq i cardId))) xs
      = Inr (filter (\<lambda>c. \<not> strict_eq (field ''id'' c) cardId) xs)"
    by (simp add: filterE_fields)
  with h keep show "deleteCard E cardId isSentCard st
        = (Inl (QslError (msg_not_found_pre @ to_string cardId @ msg_not_found_post) 2003 404), st1)"
    by (simp add: deleteCard_def Let_def)
  from h show "objects st1 = objects st"
    by (auto dest: readFromCos_store(1))
  from h show "calls st1 = calls st @ [GetObject (path_of E isSentCard)]"
    by (auto dest: readFromCos_store(2))
qed

theorem deleteCard_unknown_id_witness:
  "\<not> truthy (JStr '''')
   \<and> deleteCard scenario_env (JStr '''') True cards_store
       = (Inl (QslError msg_id_required 2002 400), cards_store)
   \<and> truthy (JStr ''zz'')
   \<and> readFromCos scenario_env (path_of scenario_env True) cards_store
       = (Inr (JArr [card_a1]), cards_store\<lparr>calls := [GetObject ''qsl/sent.json'']\<rparr>)
   \<and> list_all (\<lambda>c. \<not> nullish c) [card_a1]
   \<and> list_all (\<lambda>i. \<not> strict_eq i (JStr ''zz'')) (ids [card_a1])
   \<and> deleteCard scenario_env (JStr ''zz'') True cards_store
       = (Inl (QslError (msg_not_found_pre @ ''zz'' @ msg_not_found_post) 2003 404),
          cards_store\<lparr>calls := [GetObject ''qsl/sent.json'']\<rparr>)
   \<and> objects (cards_store\<lparr>calls := [GetObject ''qsl/sent.json'']\<rparr>) = objects cards_store"
proof -
  have p: "path_of scenario_env True = ''qsl/sent.json''"
    by (simp add: path_of_def scenario_env_def)
  have l: "readFromCos scenario_env (path_of scenario_env True) cards_store
       = (Inr (JArr [card_a1]), cards_store\<lparr>calls := [GetObject ''qsl/sent.json'']\<rparr>)"
    by (simp add: p load_cards_store cards_doc_def)
  have n: "list_all (\<lambda>c. \<not> nullish c) [card_a1]
           \<and> list_all (\<lambda>i. \<not> strict_eq i (JStr ''zz'')) (ids [card_a1])"
    by (simp add: nullish_def card_a1_def ids_def field_def)
  from l n
    deleteCard_unknown_id [where cardId = "JStr ''''" and E = scenario_env and isSentCard = True
      and st = cards_store]
    deleteCard_unknown_id [where cardId = "JStr ''zz''" and E = scenario_env and isSentCard = True
      and st = cards_store and xs = "[card_a1]"
      and ?st1.0 = "cards_store\<lparr>calls := [GetObject ''qsl/sent.json'']\<rparr>"]
  show ?thesis by simp
qed

subsection \<open>Searching and filtering by a field\<close>

lemma first_index_None: "first_index P xs = None \<longleftrightarrow> list_all (\<lambda>x. \<not> P x) xs"
  by (induction xs) auto

lemma first_index_Some:
  "first_index P xs = Some i \<Longrightarrow> i < length xs \<and> P (xs ! i) \<and> (\<forall>j<i. \<not> P (xs ! j))"
proof (induction xs arbitrary: i)
  case Nil
  then show ?case by simp
next
  case (Cons x xs)
  show ?case
  proof (cases "P x")
    case True
    with Cons.prems show ?thesis by simp
  next
    case False
    with Cons.prems obtain k where k: "first_index P xs = Some k" "i = Suc k"
      by auto
    from Cons.IH [OF k(1)] False k(2) show ?thesis
      by (auto simp: nth_Cons split: nat.splits)
  qed
qed



subsection \<open>Distinct ids\<close>

lemma strict_eq_eq: "strict_eq a b \<Longrightarrow> a = b"
  by (cases a) auto

lemma strict_eq_primitive: "primitive a \<Longrightarrow> strict_eq a b \<longleftrightarrow> a = b"
  by (cases a) auto

lemma strict_eq_primitive_right: "primitive b \<Longrightarrow> strict_eq a b \<longleftrightarrow> a = b"
  by (cases a; cases b) auto

lemma js_distinct_primitive: "list_all primitive xs \<Longrightarrow> js_distinct xs \<longleftrightarrow> distinct xs"
  by (induction xs) (auto simp: strict_eq_primitive list_all_iff)

lemma js_distinct_filter: "js_distinct (map f xs) \<Longrightarrow> js_distinct (map f (filter P xs))"
  by (induction xs) (auto simp: list_all_iff)

lemma strict_eq_sym: "strict_eq a b \<Longrightarrow> strict_eq b a"
  by (cases a; cases b) auto

lemma js_distinct_snoc:
  "js_distinct xs \<Longrightarrow> list_all (\<lambda>i. \<not> strict_eq i n) xs \<Longrightarrow> js_distinct (xs @ [n])"
  by (induction xs) (auto simp: list_all_iff dest: strict_eq_sym)

lemma list_update_same: "i < length xs \<Longrightarrow> xs ! i = n \<Longrightarrow> xs[i := n] = xs"
  by (simp add: list_update_same_conv)

subsection \<open>What a successful write did\<close>





subsection \<open>The operations on the scenario data\<close>

lemma validate_payload_new: "validateCardData payload_new True = Inr ()"
  by code_simp

lemma validate_payload_custom: "validateCardData payload_custom True = Inr ()"
  by code_simp

lemma validate_payload_update: "validateCardData payload_update True = Inr ()"
  by code_simp

lemma new_card_payload_new: "new_card fresh_uuid clock1 clock2 payload_new = card_added"
  by code_simp

lemma new_card_payload_custom: "new_card fresh_uuid clock1 clock2 payload_custom = card_custom"
  by code_simp

lemma new_card_payload_update: "new_card fresh_uuid clock1 clock2 payload_update = card_updated"
  by code_simp

lemma put_card_added: "put_card cards_doc card_added = Inr [card_a1, card_added]"
  by code_simp

lemma put_card_custom: "put_card cards_doc card_custom = Inr [card_a1, card_custom]"
  by code_simp

lemma put_card_updated: "put_card cards_doc card_updated = Inr [card_updated]"
  by code_simp

lemma stringify_added: "json_stringify scenario_env (JArr [card_a1, card_added]) = cards_added_text"
  by code_simp

lemma stringify_custom: "json_stringify scenario_env (JArr [card_a1, card_custom]) = cards_custom_text"
  by code_simp

lemma stringify_updated: "json_stringify scenario_env (JArr [card_updated]) = cards_updated_text"
  by code_simp


lemma scenario_paths:
  "path_of scenario_env True = ''qsl/sent.json''"
  "path_of scenario_env False = ''qsl/received.json''"
  by (simp_all add: path_of_def scenario_env_def)

lemma cards_store_fields:
  "faults cards_store = []" "calls cards_store = []"
  "objects cards_store ''qsl/sent.json'' = Some cards_text"
  by (simp_all add: cards_store_def store_of_def)

lemma write_after_load:
  "writeToCos scenario_env ''qsl/sent.json'' (JArr xs)
     (cards_store\<lparr>calls := [GetObject ''qsl/sent.json'']\<rparr>)
   = (Inr (),
      cards_store\<lparr>objects :=
          (objects cards_store)(''qsl/sent.json'' \<mapsto> json_stringify scenario_env (JArr xs)),
        calls := [GetObject ''qsl/sent.json'',
                  PutObject ''qsl/sent.json'' (json_stringify scenario_env (JArr xs))]\<rparr>)"
  by (simp add: writeToCos_def putObject_def next_fault_def cards_store_fields)

lemma save_new:
  "saveCard scenario_env fresh_uuid clock1 clock2 payload_new True cards_store
     = (Inr card_added,
        cards_store\<lparr>objects := (objects cards_store)(''qsl/sent.json'' \<mapsto> cards_added_text),
                     calls := [GetObject ''qsl/sent.json'', PutObject ''qsl/sent.json'' cards_added_text]\<rparr>)"
  by (simp add: saveCard_def validate_payload_new scenario_paths load_cards_store
      new_card_payload_new put_card_added write_after_load stringify_added Let_def)

lemma save_custom:
  "saveCard scenario_env fresh_uuid clock1 clock2 payload_custom True cards_store
     = (Inr card_custom,
        cards_store\<lparr>objects := (objects cards_store)(''qsl/sent.json'' \<mapsto> cards_custom_text),
                     calls := [GetObject ''qsl/sent.json'', PutObject ''qsl/sent.json'' cards_custom_text]\<rparr>)"
  by (simp add: saveCard_def validate_payload_custom scenario_paths load_cards_store
      new_card_payload_custom put_card_custom write_after_load stringify_custom Let_def)

lemma save_update:
  "saveCard scenario_env fresh_uuid clock1 clock2 payload_update True cards_store
     = (Inr card_updated,
        cards_store\<lparr>objects := (objects cards_store)(''qsl/sent.json'' \<mapsto> cards_updated_text),
                     calls := [GetObject ''qsl/sent.json'', PutObject ''qsl/sent.json'' cards_updated_text]\<rparr>)"
  by (simp add: saveCard_def validate_payload_update scenario_paths load_cards_store
      new_card_payload_update put_card_updated write_after_load stringify_updated Let_def)


subsection \<open>The invariant of the collections\<close>

lemma new_card_not_nullish: "\<not> nullish (new_card uuid t1 t2 cardData)"
  by (simp add: new_card_def nullish_def)





section \<open>Properties of the aggregator\<close>

subsection \<open>The monthly series\<close>

lemma in_month_card_month:
  "\<not> nullish c \<Longrightarrow> in_month E k c = Inr (card_month E c = Some k)"
  by (auto simp: in_month_def card_month_def get_prop_field bindE_def split: option.splits)

lemma filterE_pure:
  "list_all (\<lambda>c. p c = Inr (P c)) xs \<Longrightarrow> filterE p xs = Inr (filter P xs)"
  by (induction xs) simp_all

lemma filter_in_month:
  "list_all (\<lambda>c. \<not> nullish c) xs \<Longrightarrow>
     array_filter (in_month E k) (JArr xs) = Inr (filter (\<lambda>c. card_month E c = Some k) xs)"
  by (simp add: array_filter_def filterE_pure in_month_card_month list_all_iff)



lemma chart_step_total:
  assumes "list_all (\<lambda>c. \<not> nullish c) s" and "list_all (\<lambda>c. \<not> nullish c) r"
  shows "chart_step E now (JArr s) (JArr r) i acc
     = Inr (acc\<lparr>labels := labels acc @ [bucket_key E now i],
                 monthlySent := monthlySent acc @ [month_count E s (bucket_key E now i)],
                 monthlyPending := monthlyPending acc @ [month_count E s (bucket_key E now i)],
                 monthlyReceived := monthlyReceived acc @ [month_count E r (bucket_key E now i)]\<rparr>)"
  using assms
  by (simp add: chart_step_def Let_def filter_in_month bindE_def bucket_key_def month_count_def)

lemma chart_loop_total:
  assumes "list_all (\<lambda>c. \<not> nullish c) s" and "list_all (\<lambda>c. \<not> nullish c) r"
  shows "chart_loop E now (JArr s) (JArr r) i acc
     = Inr (acc\<lparr>labels := labels acc @ map (bucket_key E now) (turns i),
                 monthlySent := monthlySent acc
                    @ map (\<lambda>j. month_count E s (bucket_key E now j)) (turns i),
                 monthlyPending := monthlyPending acc
                    @ map (\<lambda>j. month_count E s (bucket_key E now j)) (turns i),
                 monthlyReceived := monthlyReceived acc
                    @ map (\<lambda>j. month_count E r (bucket_key E now j)) (turns i)\<rparr>)"
proof (induction i arbitrary: acc)
  case 0
  show ?case by (simp add: chart_step_total [OF assms] turns_def)
next
  case (Suc i)
  show ?case
    by (simp add: chart_step_total [OF assms] Suc.IH) (simp add: turns_def)
qed


subsection \<open>The mode breakdown\<close>

lemma count_mode_total:
  "\<not> nullish c \<Longrightarrow> string_or_absent (field ''mode'' c) \<Longrightarrow>
     count_mode E c m = Inr (bump (mode_label E c) m)"
  by (auto simp: count_mode_def get_prop_field bindE_def string_or_absent_def nullish_def
      mode_label_def bump_def Let_def)

lemma forEach_count_mode:
  "list_all (\<lambda>c. \<not> nullish c \<and> string_or_absent (field ''mode'' c)) xs \<Longrightarrow>
     forEach (count_mode E) xs m = Inr (mode_counts E xs m)"
  by (induction xs arbitrary: m) (simp_all add: count_mode_total mode_counts_def)

subsection \<open>The chart of a well-formed pair of collections\<close>

lemma getChartData_total:
  assumes "readFromCos E (sentCards_path (CONFIG E)) st = (Inr (JArr s), st1)"
    and "readFromCos E (receivedCards_path (CONFIG E)) st1 = (Inr (JArr r), st2)"
    and "list_all (\<lambda>c. \<not> nullish c \<and> string_or_absent (field ''mode'' c)) (s @ r)"
  shows "getChartData E now st
     = (Inr \<lparr>labels = map (bucket_key E now) (turns 5),
              monthlySent = map (\<lambda>j. month_count E s (bucket_key E now j)) (turns 5),
              monthlyPending = map (\<lambda>j. month_count E s (bucket_key E now j)) (turns 5),
              monthlyReceived = map (\<lambda>j. month_count E r (bucket_key E now j)) (turns 5),
              modeLabels = map fst (object_entries (mode_counts E (s @ r) [])),
              modeData = map snd (object_entries (mode_counts E (s @ r) []))\<rparr>, st2)"
proof -
  from assms(3) have n: "list_all (\<lambda>c. \<not> nullish c) s" "list_all (\<lambda>c. \<not> nullish c) r"
    by (simp_all add: list_all_iff)
  show ?thesis
    by (simp add: getChartData_def assms(1,2) chart_loop_total [OF n] bindE_def spread_def
        forEach_count_mode [OF assms(3)])
qed

subsection \<open>The chart scenarios\<close>

lemma load_chart_sent:
  "readFromCos scenario_env ''qsl/sent.json'' chart_store
     = (Inr chart_sent_doc, chart_store\<lparr>calls := [GetObject ''qsl/sent.json'']\<rparr>)"
proof -
  have "trim chart_sent_text = chart_sent_text" "chart_sent_text \<noteq> []"
    "scenario_parse chart_sent_text = Inr chart_sent_doc"
    by code_simp+
  then show ?thesis
    by (simp add: readFromCos_def getObject_def next_fault_def chart_store_def store_of_def
        scenario_env_def)
qed

lemma load_chart_received:
  "readFromCos scenario_env ''qsl/received.json''
       (chart_store\<lparr>calls := [GetObject ''qsl/sent.json'']\<rparr>)
     = (Inr chart_received_doc,
        chart_store\<lparr>calls := [GetObject ''qsl/sent.json'', GetObject ''qsl/received.json'']\<rparr>)"
proof -
  have "trim chart_received_text = chart_received_text" "chart_received_text \<noteq> []"
    "scenario_parse chart_received_text = Inr chart_received_doc"
    by code_simp+
  then show ?thesis
    by (simp add: readFromCos_def getObject_def next_fault_def chart_store_def store_of_def
        scenario_env_def)
qed

lemma scenario_keys:
  "sentCards_path (CONFIG scenario_env) = ''qsl/sent.json''"
  "receivedCards_path (CONFIG scenario_env) = ''qsl/received.json''"
  by (simp_all add: scenario_env_def)

lemma scenario_card_months:
  "card_month scenario_env (JObj [(''date'', JStr ''2024-01-15'')]) = Some ''2024-01''"
  "card_month scenario_env (JObj [(''date'', JStr ''2024-02-01'')]) = Some ''2024-02''"
  "card_month scenario_env (JObj [(''date'', JStr ''2024-02-10'')]) = Some ''2024-02''"
  "card_month scenario_env (JObj [(''callSign'', JStr ''JA1ABC'')]) = None"
  "card_month scenario_env (JObj [(''date'', JStr ''soon'')]) = None"
  by code_simp+

lemma february_buckets:
  "map (bucket_key scenario_env mid_february) (turns 5)
     = [''2023-09'', ''2023-10'', ''2023-11'', ''2023-12'', ''2024-01'', ''2024-02'']"
  by code_simp

lemma march_buckets:
  "map (bucket_key scenario_env end_of_march) (turns 5)
     = [''2023-10'', ''2023-12'', ''2023-12'', ''2024-01'', ''2024-03'', ''2024-03'']"
  by code_simp

lemma chart_docs_wellformed:
  "list_all (\<lambda>c. \<not> nullish c \<and> string_or_absent (field ''mode'' c))
     ([JObj [(''date'', JStr ''2024-01-15'')], JObj [(''date'', JStr ''2024-02-01'')],
       JObj [(''callSign'', JStr ''JA1ABC'')], JObj [(''date'', JStr ''soon'')]]
      @ [JObj [(''date'', JStr ''2024-02-10'')]])"
  by (simp add: nullish_def string_or_absent_def field_def)

lemma chart_mode_counts:
  "object_entries (mode_counts scenario_env
     ([JObj [(''date'', JStr ''2024-01-15'')], JObj [(''date'', JStr ''2024-02-01'')],
       JObj [(''callSign'', JStr ''JA1ABC'')], JObj [(''date'', JStr ''soon'')]]
      @ [JObj [(''date'', JStr ''2024-02-10'')]]) []) = [(''OTHER'', 5)]"
  by code_simp

lemma month_count_sent:
  "month_count scenario_env
     [JObj [(''date'', JStr ''2024-01-15'')], JObj [(''date'', JStr ''2024-02-01'')],
      JObj [(''callSign'', JStr ''JA1ABC'')], JObj [(''date'', JStr ''soon'')]] k
   = (if k = ''2024-01'' then 1 else 0) + (if k = ''2024-02'' then 1 else 0)"
  by (simp add: month_count_def scenario_card_months)

lemma month_count_received:
  "month_count scenario_env [JObj [(''date'', JStr ''2024-02-10'')]] k
   = (if k = ''2024-02'' then 1 else 0)"
  by (simp add: month_count_def scenario_card_months)

lemma map_map_turns: "map (\<lambda>j. f (bucket_key E now j)) (turns n) = map f (map (bucket_key E now) (turns n))"
  by simp

lemma chart_in_february:
  "getChartData scenario_env mid_february chart_store
     = (Inr \<lparr>labels = [''2023-09'', ''2023-10'', ''2023-11'', ''2023-12'', ''2024-01'', ''2024-02''],
            monthlySent = [0, 0, 0, 0, 1, 1], monthlyPending = [0, 0, 0, 0, 1, 1],
            monthlyReceived = [0, 0, 0, 0, 0, 1],
            modeLabels = [''OTHER''], modeData = [5]\<rparr>,
        chart_store\<lparr>calls := [GetObject ''qsl/sent.json'', GetObject ''qsl/received.json'']\<rparr>)"
  using getChartData_total [where E = scenario_env and st = chart_store and now = mid_february,
      unfolded scenario_keys, OF load_chart_sent [unfolded chart_sent_doc_def]
        load_chart_received [unfolded chart_received_doc_def] chart_docs_wellformed]
  by (simp only: map_map_turns february_buckets chart_mode_counts)
     (simp add: month_count_sent month_count_received)

text \<open>
  Claim C8, at an input where the code departs from it. At noon UTC of 31 March 2024, in
  a process running in UTC, the six labels are not the six months from October 2023 to
  March 2024: \<^verbatim>\<open>setMonth\<close> keeps the day 31, which November and February do not have,
  so the turns for those months land in December and in March. December 2023 and March
  2024 are labelled twice, November 2023 and February 2024 have no bucket, and the sent
  card dated 2024-02-01 and the received card dated 2024-02-10 are counted nowhere.
\<close>

theorem getChartData_at_end_of_march:
  "fst (getChartData scenario_env end_of_march chart_store)
     = Inr \<lparr>labels = [''2023-10'', ''2023-12'', ''2023-12'', ''2024-01'', ''2024-03'', ''2024-03''],
            monthlySent = [0, 0, 0, 1, 0, 0], monthlyPending = [0, 0, 0, 1, 0, 0],
            monthlyReceived = [0, 0, 0, 0, 0, 0],
            modeLabels = [''OTHER''], modeData = [5]\<rparr>"
  using getChartData_total [where E = scenario_env and st = chart_store and now = end_of_march,
      unfolded scenario_keys, OF load_chart_sent [unfolded chart_sent_doc_def]
        load_chart_received [unfolded chart_received_doc_def] chart_docs_wellformed]
  by (simp only: map_map_turns march_buckets chart_mode_counts)
     (simp add: month_count_sent month_count_received)



subsection \<open>What the chart counts\<close>

lemma turns_5: "turns 5 = [5, 4, 3, 2, 1, 0]"
  by (simp add: turns_def upt_rec)

text \<open>
  For collections of cards, \<^verbatim>\<open>getChartData\<close> returns six buckets. The labels are those
  of the six turns of the loop; the sent and the received series give, label by label, the
  number of cards of the collection whose date falls in the month of the label. A card
  whose date is missing, empty or unreadable falls in no month.
\<close>

theorem getChartData_buckets:
  "(readFromCos E (sentCards_path (CONFIG E)) st = (Inr (JArr s), st1)
    \<and> readFromCos E (receivedCards_path (CONFIG E)) st1 = (Inr (JArr r), st2)
    \<and> list_all (\<lambda>c. \<not> nullish c \<and> string_or_absent (field ''mode'' c)) (s @ r) \<longrightarrow>
    (\<exists>c. getChartData E now st = (Inr c, st2)
       \<and> labels c = map (bucket_key E now) [5, 4, 3, 2, 1, 0]
       \<and> monthlySent c = map (month_count E s) (labels c)
       \<and> monthlyReceived c = map (month_count E r) (labels c)))
   \<and> (\<forall>x. \<not> truthy (field ''date'' x) \<or> new_Date E (field ''date'' x) = None \<longrightarrow>
        card_month E x = None \<and> month_count E [x] k = 0)"
proof (intro impI conjI allI)
  assume h: "readFromCos E (sentCards_path (CONFIG E)) st = (Inr (JArr s), st1)
   \<and> readFromCos E (receivedCards_path (CONFIG E)) st1 = (Inr (JArr r), st2)
   \<and> list_all (\<lambda>c. \<not> nullish c \<and> string_or_absent (field ''mode'' c)) (s @ r)"
  then have h1: "readFromCos E (sentCards_path (CONFIG E)) st = (Inr (JArr s), st1)"
    and h2: "readFromCos E (receivedCards_path (CONFIG E)) st1 = (Inr (JArr r), st2)"
    and h3: "list_all (\<lambda>c. \<not> nullish c \<and> string_or_absent (field ''mode'' c)) (s @ r)"
    by blast+
  have "getChartData E now st
     = (Inr \<lparr>labels = map (bucket_key E now) (turns 5),
              monthlySent = map (\<lambda>j. month_count E s (bucket_key E now j)) (turns 5),
              monthlyPending = map (\<lambda>j. month_count E s (bucket_key E now j)) (turns 5),
              monthlyReceived = map (\<lambda>j. month_count E r (bucket_key E now j)) (turns 5),
              modeLabels = map fst (object_entries (mode_counts E (s @ r) [])),
              modeData = map snd (object_entries (mode_counts E (s @ r) []))\<rparr>, st2)"
    by (rule getChartData_total [OF h1 h2 h3])
  then show "\<exists>c. getChartData E now st = (Inr c, st2)
      \<and> labels c = map (bucket_key E now) [5, 4, 3, 2, 1, 0]
      \<and> monthlySent c = map (month_count E s) (labels c)
      \<and> monthlyReceived c = map (month_count E r) (labels c)"
    by (simp add: turns_5)
next
  fix x
  assume "\<not> truthy (field ''date'' x) \<or> new_Date E (field ''date'' x) = None"
  then show "card_month E x = None" "month_count E [x] k = 0"
    by (auto simp: card_month_def month_count_def)
qed

theorem getChartData_buckets_witness:
  "readFromCos scenario_env (sentCards_path (CONFIG scenario_env)) chart_store
     = (Inr chart_sent_doc, chart_store\<lparr>calls := [GetObject ''qsl/sent.json'']\<rparr>)
   \<and> readFromCos scenario_env (receivedCards_path (CONFIG scenario_env))
        (chart_store\<lparr>calls := [GetObject ''qsl/sent.json'']\<rparr>)
     = (Inr chart_received_doc,
        chart_store\<lparr>calls := [GetObject ''qsl/sent.json'', GetObject ''qsl/received.json'']\<rparr>)
   \<and> (\<exists>c. getChartData scenario_env mid_february chart_store
           = (Inr c, chart_store\<lparr>calls := [GetObject ''qsl/sent.json'',
                                             GetObject ''qsl/received.json'']\<rparr>)
        \<and> labels c = [''2023-09'', ''2023-10'', ''2023-11'', ''2023-12'', ''2024-01'', ''2024-02'']
        \<and> monthlySent c = [0, 0, 0, 0, 1, 1]
        \<and> monthlyReceived c = [0, 0, 0, 0, 0, 1])
   \<and> \<not> truthy (field ''date'' (JObj [(''callSign'', JStr ''JA1ABC'')]))
   \<and> card_month scenario_env (JObj [(''callSign'', JStr ''JA1ABC'')]) = None
   \<and> new_Date scenario_env (field ''date'' (JObj [(''date'', JStr ''soon'')])) = None
   \<and> card_month scenario_env (JObj [(''date'', JStr ''soon'')]) = None"
proof -
  let ?s = "[JObj [(''date'', JStr ''2024-01-15'')], JObj [(''date'', JStr ''2024-02-01'')],
             JObj [(''callSign'', JStr ''JA1ABC'')], JObj [(''date'', JStr ''soon'')]]"
  let ?r = "[JObj [(''date'', JStr ''2024-02-10'')]]"
  note t = getChartData_buckets [where E = scenario_env and st = chart_store and now = mid_february
      and s = ?s and r = ?r
      and ?st1.0 = "chart_store\<lparr>calls := [GetObject ''qsl/sent.json'']\<rparr>"
      and ?st2.0 = "chart_store\<lparr>calls := [GetObject ''qsl/sent.json'',
                                             GetObject ''qsl/received.json'']\<rparr>",
      unfolded scenario_keys]
  have l1: "readFromCos scenario_env ''qsl/sent.json'' chart_store
     = (Inr (JArr ?s), chart_store\<lparr>calls := [GetObject ''qsl/sent.json'']\<rparr>)"
    using load_chart_sent by (simp add: chart_sent_doc_def)
  have l2: "readFromCos scenario_env ''qsl/received.json''
        (chart_store\<lparr>calls := [GetObject ''qsl/sent.json'']\<rparr>)
     = (Inr (JArr ?r),
        chart_store\<lparr>calls := [GetObject ''qsl/sent.json'', GetObject ''qsl/received.json'']\<rparr>)"
    using load_chart_received by (simp add: chart_received_doc_def)
  have k: "map (bucket_key scenario_env mid_february) [5, 4, 3, 2, 1, 0]
     = [''2023-09'', ''2023-10'', ''2023-11'', ''2023-12'', ''2024-01'', ''2024-02'']"
    using february_buckets by (simp add: turns_5)
  from t have "\<exists>c. getChartData scenario_env mid_february chart_store
           = (Inr c, chart_store\<lparr>calls := [GetObject ''qsl/sent.json'',
                                             GetObject ''qsl/received.json'']\<rparr>)
       \<and> labels c = map (bucket_key scenario_env mid_february) [5, 4, 3, 2, 1, 0]
       \<and> monthlySent c = map (month_count scenario_env ?s) (labels c)
       \<and> monthlyReceived c = map (month_count scenario_env ?r) (labels c)"
    using l1 l2 chart_docs_wellformed
    by (simp add: chart_sent_doc_def chart_received_doc_def)
  then obtain c where
    c: "getChartData scenario_env mid_february chart_store
           = (Inr c, chart_store\<lparr>calls := [GetObject ''qsl/sent.json'',
                                             GetObject ''qsl/received.json'']\<rparr>)"
       "labels c = map (bucket_key scenario_env mid_february) [5, 4, 3, 2, 1, 0]"
       "monthlySent c = map (month_count scenario_env ?s) (labels c)"
       "monthlyReceived c = map (month_count scenario_env ?r) (labels c)"
    by blast
  from c(2) k have lab: "labels c
      = [''2023-09'', ''2023-10'', ''2023-11'', ''2023-12'', ''2024-01'', ''2024-02'']"
    by simp
  from c(3,4) lab have ser: "monthlySent c = [0, 0, 0, 0, 1, 1]"
    "monthlyReceived c = [0, 0, 0, 0, 0, 1]"
    by (simp_all add: month_count_sent month_count_received)
  have d: "\<not> truthy (field ''date'' (JObj [(''callSign'', JStr ''JA1ABC'')]))"
    "new_Date scenario_env (field ''date'' (JObj [(''date'', JStr ''soon'')])) = None"
    by code_simp+
  from t have a: "\<And>x. \<not> truthy (field ''date'' x)
      \<or> new_Date scenario_env (field ''date'' x) = None \<Longrightarrow> card_month scenario_env x = None"
    by blast
  have n: "card_month scenario_env (JObj [(''callSign'', JStr ''JA1ABC'')]) = None"
    "card_month scenario_env (JObj [(''date'', JStr ''soon'')]) = None"
    using d by (auto intro: a)
  from c(1) lab ser d n l1 l2 show ?thesis
    by (simp add: scenario_keys chart_sent_doc_def chart_received_doc_def)
qed

text \<open>
  The chart scenario of the specification: with the clock at noon UTC of 15 February 2024,
  sent cards dated 2024-01-15 and 2024-02-01 and a received card dated 2024-02-10, the
  buckets run from September 2023 to February 2024; the sent series has one card in January
  and one in February, the received series one in February and none in January.
\<close>

theorem getChartData_in_february:
  "fst (getChartData scenario_env mid_february chart_store)
     = Inr \<lparr>labels = [''2023-09'', ''2023-10'', ''2023-11'', ''2023-12'', ''2024-01'', ''2024-02''],
            monthlySent = [0, 0, 0, 0, 1, 1], monthlyPending = [0, 0, 0, 0, 1, 1],
            monthlyReceived = [0, 0, 0, 0, 0, 1],
            modeLabels = [''OTHER''], modeData = [5]\<rparr>"
  by (simp add: chart_in_february)

text \<open>
  A date of the form \<^verbatim>\<open>YYYY-MM-DD\<close> is read as midnight UTC, and its month is taken in
  local time: in a process five hours west of UTC the card dated 2024-02-01 falls in
  January.
\<close>

theorem card_month_west_of_utc:
  "card_month western_env (JObj [(''date'', JStr ''2024-02-01'')]) = Some ''2024-01''"
  by code_simp

text \<open>
  In the same process, with the clock at 06:00 UTC of 1 March 2024, one in the morning
  local time, the six labels are those of October 2023 to March 2024: \<^verbatim>\<open>setMonth\<close>
  replaces the month of the local date and brings the result back to UTC.
\<close>

text \<open>
  The clock is read in every turn. When the month changes between two turns, here
  between the last two, at midnight UTC of 1 March 2024 in a process running in UTC, the
  turns before it count back from February and the last one is March.
\<close>

theorem bucket_keys_across_midnight:
  "map (bucket_key scenario_env (\<lambda>i. if i = 0 then 1709251200000 else 1709251199999)) (turns 5)
     = [''2023-09'', ''2023-10'', ''2023-11'', ''2023-12'', ''2024-01'', ''2024-03'']"
  by code_simp

theorem bucket_keys_west_of_utc:
  "map (bucket_key western_env (\<lambda>i. 1709272800000)) (turns 5)
     = [''2023-10'', ''2023-11'', ''2023-12'', ''2024-01'', ''2024-02'', ''2024-03'']"
  by code_simp

subsection \<open>The statistics\<close>

lemma strict_eq_JStr: "strict_eq v (JStr s) \<longleftrightarrow> v = JStr s"
  by (cases v) auto

lemma add_country_total:
  "\<not> nullish c \<Longrightarrow> string_or_absent (field ''callSign'' c) \<Longrightarrow>
     add_country E c seen
       = Inr (if truthy (field ''callSign'' c) then set_add (country_code E c) seen else seen)"
  by (auto simp: add_country_def get_prop_field bindE_def string_or_absent_def nullish_def
      country_code_def)

lemma forEach_add_country:
  "list_all (\<lambda>c. \<not> nullish c \<and> string_or_absent (field ''callSign'' c)) xs \<Longrightarrow> distinct seen \<Longrightarrow>
     \<exists>codes. forEach (add_country E) xs seen = Inr codes \<and> distinct codes
        \<and> set codes = set seen \<union> country_codes E xs"
proof (induction xs arbitrary: seen)
  case Nil
  then show ?case by (simp add: country_codes_def)
next
  case (Cons c xs)
  let ?seen = "if truthy (field ''callSign'' c) then set_add (country_code E c) seen else seen"
  from Cons.prems have step: "add_country E c seen = Inr ?seen"
    by (simp add: add_country_total)
  from Cons.prems(2) have d: "distinct ?seen"
    by (simp add: set_add_def)
  from Cons.prems(1) have "list_all (\<lambda>c. \<not> nullish c \<and> string_or_absent (field ''callSign'' c)) xs"
    by simp
  from Cons.IH [OF this d] obtain codes where
    codes: "forEach (add_country E) xs ?seen = Inr codes" "distinct codes"
      "set codes = set ?seen \<union> country_codes E xs"
    by blast
  have "set ?seen \<union> country_codes E xs = set seen \<union> country_codes E (c # xs)"
    by (auto simp: set_add_def country_codes_def)
  with codes step show ?case by simp
qed

lemma toLowerCase_eye: "toLowerCase E ''eye'' = ''eye''"
  by (simp add: toLowerCase_def lower_char_def is_ascii_def)

lemma is_eye_total:
  "\<not> nullish c \<Longrightarrow> string_or_absent (field ''mode'' c) \<Longrightarrow> is_eye E c = Inr (mode_is E ''eye'' c)"
  by (auto simp: is_eye_def get_prop_field bindE_def string_or_absent_def nullish_def
      mode_is_def ci_equal_def toLowerCase_eye)

lemma is_pending_total:
  "\<not> nullish c \<Longrightarrow> is_pending c = Inr (field ''status'' c = JStr ''pending'')"
  by (simp add: is_pending_def get_prop_field bindE_def strict_eq_JStr)

text \<open>
  Claim C7, as amended. For every pair of collections of cards (entries that are not null,
  whose call sign and mode are strings where they are present), \<^verbatim>\<open>getStats\<close> returns the
  number of received cards, the number of sent cards, the number of sent cards whose status
  is \<^verbatim>\<open>pending\<close>, the number of distinct country codes (the first two code units of the
  call sign, in upper case) among the cards of both collections whose call sign is not
  empty, and the number of cards of both collections whose mode is \<^verbatim>\<open>eye\<close> up to case.
\<close>

theorem getStats_counts:
  "readFromCos E (sentCards_path (CONFIG E)) st = (Inr (JArr s), st1)
   \<and> readFromCos E (receivedCards_path (CONFIG E)) st1 = (Inr (JArr r), st2)
   \<and> list_all (\<lambda>c. \<not> nullish c \<and> string_or_absent (field ''callSign'' c)
                    \<and> string_or_absent (field ''mode'' c)) (s @ r) \<longrightarrow>
   (\<exists>g. getStats E rnd st = (Inr g, st2)
      \<and> received g = length r
      \<and> sent g = length s
      \<and> pending g = length (filter (\<lambda>c. field ''status'' c = JStr ''pending'') s)
      \<and> countries g = card (country_codes E (s @ r))
      \<and> eyeQso g = length (filter (mode_is E ''eye'') (s @ r)))"
proof
  assume h: "readFromCos E (sentCards_path (CONFIG E)) st = (Inr (JArr s), st1)
   \<and> readFromCos E (receivedCards_path (CONFIG E)) st1 = (Inr (JArr r), st2)
   \<and> list_all (\<lambda>c. \<not> nullish c \<and> string_or_absent (field ''callSign'' c)
                    \<and> string_or_absent (field ''mode'' c)) (s @ r)"
  then have wf: "list_all (\<lambda>c. \<not> nullish c \<and> string_or_absent (field ''callSign'' c)) (s @ r)"
    and eye: "list_all (\<lambda>c. is_eye E c = Inr (mode_is E ''eye'' c)) (s @ r)"
    and pen: "list_all (\<lambda>c. is_pending c = Inr (field ''status'' c = JStr ''pending'')) s"
    by (auto simp: list_all_iff is_eye_total is_pending_total)
  from forEach_add_country [OF wf, of "[]" E] obtain codes where
    codes: "forEach (add_country E) (s @ r) [] = Inr codes" "distinct codes"
      "set codes = country_codes E (s @ r)"
    by auto
  from codes(2,3) have n: "length codes = card (country_codes E (s @ r))"
    by (metis distinct_card)
  from h codes(1) n show "\<exists>g. getStats E rnd st = (Inr g, st2)
      \<and> received g = length r
      \<and> sent g = length s
      \<and> pending g = length (filter (\<lambda>c. field ''status'' c = JStr ''pending'') s)
      \<and> countries g = card (country_codes E (s @ r))
      \<and> eyeQso g = length (filter (mode_is E ''eye'') (s @ r))"
    by (simp add: getStats_def stats_of_def spread_def bindE_def array_filter_def
        filterE_pure [OF eye] filterE_pure [OF pen])
qed

lemma load_stats_sent:
  "readFromCos scenario_env ''qsl/sent.json'' stats_store
     = (Inr stats_sent_doc, stats_store\<lparr>calls := [GetObject ''qsl/sent.json'']\<rparr>)"
proof -
  have "trim stats_sent_text = stats_sent_text" "stats_sent_text \<noteq> []"
    "scenario_parse stats_sent_text = Inr stats_sent_doc"
    by code_simp+
  then show ?thesis
    by (simp add: readFromCos_def getObject_def next_fault_def stats_store_def store_of_def
        scenario_env_def)
qed

lemma load_stats_received:
  "readFromCos scenario_env ''qsl/received.json''
       (stats_store\<lparr>calls := [GetObject ''qsl/sent.json'']\<rparr>)
     = (Inr stats_received_doc,
        stats_store\<lparr>calls := [GetObject ''qsl/sent.json'', GetObject ''qsl/received.json'']\<rparr>)"
proof -
  have "trim stats_received_text = stats_received_text" "stats_received_text \<noteq> []"
    "scenario_parse stats_received_text = Inr stats_received_doc"
    by code_simp+
  then show ?thesis
    by (simp add: readFromCos_def getObject_def next_fault_def stats_store_def store_of_def
        scenario_env_def)
qed

lemma load_calls_sent:
  "readFromCos scenario_env ''qsl/sent.json'' calls_store
     = (Inr calls_sent_doc, calls_store\<lparr>calls := [GetObject ''qsl/sent.json'']\<rparr>)"
proof -
  have "trim calls_sent_text = calls_sent_text" "calls_sent_text \<noteq> []"
    "scenario_parse calls_sent_text = Inr calls_sent_doc"
    by code_simp+
  then show ?thesis
    by (simp add: readFromCos_def getObject_def next_fault_def calls_store_def store_of_def
        scenario_env_def)
qed

lemma load_calls_received:
  "readFromCos scenario_env ''qsl/received.json''
       (calls_store\<lparr>calls := [GetObject ''qsl/sent.json'']\<rparr>)
     = (Inr calls_received_doc,
        calls_store\<lparr>calls := [GetObject ''qsl/sent.json'', GetObject ''qsl/received.json'']\<rparr>)"
proof -
  have "trim calls_received_text = calls_received_text" "calls_received_text \<noteq> []"
    "scenario_parse calls_received_text = Inr calls_received_doc"
    by code_simp+
  then show ?thesis
    by (simp add: readFromCos_def getObject_def next_fault_def calls_store_def store_of_def
        scenario_env_def)
qed

lemma stats_docs_wellformed:
  "list_all (\<lambda>c. \<not> nullish c \<and> string_or_absent (field ''callSign'' c)
                    \<and> string_or_absent (field ''mode'' c))
         ([JObj [(''callSign'', JStr ''JA1ABC''), (''mode'', JStr ''CW''),
                 (''status'', JStr ''pending'')]]
          @ [JObj [(''callSign'', JStr ''W1XYZ''), (''mode'', JStr ''EYE'')]])"
  by (simp add: nullish_def string_or_absent_def field_def)

lemma calls_docs_wellformed:
  "list_all (\<lambda>c. \<not> nullish c \<and> string_or_absent (field ''callSign'' c)
                    \<and> string_or_absent (field ''mode'' c))
         ([JObj [(''callSign'', JStr ''ja1abc''), (''mode'', JStr ''CW''),
                 (''status'', JStr ''pending'')],
           JObj [(''callSign'', JStr ''JA9zz''), (''mode'', JStr ''eye''),
                 (''status'', JStr ''sent'')],
           JObj [(''callSign'', JStr []), (''mode'', JStr ''Eye'')]]
          @ [JObj [(''callSign'', JStr (zhong @ ''A''))],
             JObj [(''callSign'', JStr (zhong @ ''B''))],
             JObj [(''mode'', JStr ''EYES'')]])"
  by (simp add: nullish_def string_or_absent_def field_def)

lemma stats_docs_counts:
  "length (filter (\<lambda>c. field ''status'' c = JStr ''pending'')
      [JObj [(''callSign'', JStr ''JA1ABC''), (''mode'', JStr ''CW''),
             (''status'', JStr ''pending'')]]) = 1"
  "card (country_codes scenario_env
         ([JObj [(''callSign'', JStr ''JA1ABC''), (''mode'', JStr ''CW''),
                 (''status'', JStr ''pending'')]]
          @ [JObj [(''callSign'', JStr ''W1XYZ''), (''mode'', JStr ''EYE'')]])) = 2"
  "length (filter (mode_is scenario_env ''eye'')
         ([JObj [(''callSign'', JStr ''JA1ABC''), (''mode'', JStr ''CW''),
                 (''status'', JStr ''pending'')]]
          @ [JObj [(''callSign'', JStr ''W1XYZ''), (''mode'', JStr ''EYE'')]])) = 1"
  by code_simp+

lemma calls_docs_counts:
  "length (filter (\<lambda>c. field ''status'' c = JStr ''pending'')
      [JObj [(''callSign'', JStr ''ja1abc''), (''mode'', JStr ''CW''),
                 (''status'', JStr ''pending'')],
           JObj [(''callSign'', JStr ''JA9zz''), (''mode'', JStr ''eye''),
                 (''status'', JStr ''sent'')],
           JObj [(''callSign'', JStr []), (''mode'', JStr ''Eye'')]]) = 1"
  "country_codes scenario_env
         ([JObj [(''callSign'', JStr ''ja1abc''), (''mode'', JStr ''CW''),
                 (''status'', JStr ''pending'')],
           JObj [(''callSign'', JStr ''JA9zz''), (''mode'', JStr ''eye''),
                 (''status'', JStr ''sent'')],
           JObj [(''callSign'', JStr []), (''mode'', JStr ''Eye'')]]
          @ [JObj [(''callSign'', JStr (zhong @ ''A''))],
             JObj [(''callSign'', JStr (zhong @ ''B''))],
             JObj [(''mode'', JStr ''EYES'')]])
     = {''JA'', zhong @ ''A'', zhong @ ''B''}"
  "card {''JA'', zhong @ ''A'', zhong @ ''B''} = 3"
  "length (filter (mode_is scenario_env ''eye'')
         ([JObj [(''callSign'', JStr ''ja1abc''), (''mode'', JStr ''CW''),
                 (''status'', JStr ''pending'')],
           JObj [(''callSign'', JStr ''JA9zz''), (''mode'', JStr ''eye''),
                 (''status'', JStr ''sent'')],
           JObj [(''callSign'', JStr []), (''mode'', JStr ''Eye'')]]
          @ [JObj [(''callSign'', JStr (zhong @ ''A''))],
             JObj [(''callSign'', JStr (zhong @ ''B''))],
             JObj [(''mode'', JStr ''EYES'')]])) = 2"
  by code_simp+

theorem getStats_counts_witness:
  "readFromCos scenario_env (sentCards_path (CONFIG scenario_env)) stats_store
     = (Inr (JArr [JObj [(''callSign'', JStr ''JA1ABC''), (''mode'', JStr ''CW''),
                         (''status'', JStr ''pending'')]]),
        stats_store\<lparr>calls := [GetObject ''qsl/sent.json'']\<rparr>)
   \<and> readFromCos scenario_env (receivedCards_path (CONFIG scenario_env))
         (stats_store\<lparr>calls := [GetObject ''qsl/sent.json'']\<rparr>)
     = (Inr (JArr [JObj [(''callSign'', JStr ''W1XYZ''), (''mode'', JStr ''EYE'')]]),
        stats_store\<lparr>calls := [GetObject ''qsl/sent.json'', GetObject ''qsl/received.json'']\<rparr>)
   \<and> list_all (\<lambda>c. \<not> nullish c \<and> string_or_absent (field ''callSign'' c)
                    \<and> string_or_absent (field ''mode'' c))
         ([JObj [(''callSign'', JStr ''JA1ABC''), (''mode'', JStr ''CW''),
                 (''status'', JStr ''pending'')]]
          @ [JObj [(''callSign'', JStr ''W1XYZ''), (''mode'', JStr ''EYE'')]])
   \<and> (\<exists>g. getStats scenario_env (3, 4, 5) stats_store
            = (Inr g, stats_store\<lparr>calls := [GetObject ''qsl/sent.json'',
                                               GetObject ''qsl/received.json'']\<rparr>)
        \<and> received g = 1 \<and> sent g = 1 \<and> pending g = 1 \<and> countries g = 2 \<and> eyeQso g = 1)
   \<and> readFromCos scenario_env (sentCards_path (CONFIG scenario_env)) calls_store
     = (Inr calls_sent_doc, calls_store\<lparr>calls := [GetObject ''qsl/sent.json'']\<rparr>)
   \<and> readFromCos scenario_env (receivedCards_path (CONFIG scenario_env))
         (calls_store\<lparr>calls := [GetObject ''qsl/sent.json'']\<rparr>)
     = (Inr calls_received_doc,
        calls_store\<lparr>calls := [GetObject ''qsl/sent.json'', GetObject ''qsl/received.json'']\<rparr>)
   \<and> (\<exists>g. getStats scenario_env (3, 4, 5) calls_store
            = (Inr g, calls_store\<lparr>calls := [GetObject ''qsl/sent.json'',
                                               GetObject ''qsl/received.json'']\<rparr>)
        \<and> received g = 3 \<and> sent g = 3 \<and> pending g = 1 \<and> countries g = 3 \<and> eyeQso g = 2)"
proof -
  let ?s = "[JObj [(''callSign'', JStr ''JA1ABC''), (''mode'', JStr ''CW''),
                   (''status'', JStr ''pending'')]]"
  let ?r = "[JObj [(''callSign'', JStr ''W1XYZ''), (''mode'', JStr ''EYE'')]]"
  let ?s' = "[JObj [(''callSign'', JStr ''ja1abc''), (''mode'', JStr ''CW''),
                 (''status'', JStr ''pending'')],
           JObj [(''callSign'', JStr ''JA9zz''), (''mode'', JStr ''eye''),
                 (''status'', JStr ''sent'')],
           JObj [(''callSign'', JStr []), (''mode'', JStr ''Eye'')]]"
  let ?r' = "[JObj [(''callSign'', JStr (zhong @ ''A''))],
             JObj [(''callSign'', JStr (zhong @ ''B''))],
             JObj [(''mode'', JStr ''EYES'')]]"
  have l1: "readFromCos scenario_env (sentCards_path (CONFIG scenario_env)) stats_store
     = (Inr (JArr ?s), stats_store\<lparr>calls := [GetObject ''qsl/sent.json'']\<rparr>)"
    by (simp add: scenario_keys load_stats_sent stats_sent_doc_def)
  have l2: "readFromCos scenario_env (receivedCards_path (CONFIG scenario_env))
         (stats_store\<lparr>calls := [GetObject ''qsl/sent.json'']\<rparr>)
     = (Inr (JArr ?r),
        stats_store\<lparr>calls := [GetObject ''qsl/sent.json'', GetObject ''qsl/received.json'']\<rparr>)"
    by (simp add: scenario_keys load_stats_received stats_received_doc_def)
  have l3: "readFromCos scenario_env (sentCards_path (CONFIG scenario_env)) calls_store
     = (Inr (JArr ?s'), calls_store\<lparr>calls := [GetObject ''qsl/sent.json'']\<rparr>)"
    by (simp add: scenario_keys load_calls_sent calls_sent_doc_def)
  have l4: "readFromCos scenario_env (receivedCards_path (CONFIG scenario_env))
         (calls_store\<lparr>calls := [GetObject ''qsl/sent.json'']\<rparr>)
     = (Inr (JArr ?r'),
        calls_store\<lparr>calls := [GetObject ''qsl/sent.json'', GetObject ''qsl/received.json'']\<rparr>)"
    by (simp add: scenario_keys load_calls_received calls_received_doc_def)
  note t = getStats_counts [where E = scenario_env and rnd = "(3, 4, 5)"]
  from t [where st = stats_store and s = ?s and r = ?r
      and ?st1.0 = "stats_store\<lparr>calls := [GetObject ''qsl/sent.json'']\<rparr>"
      and ?st2.0 = "stats_store\<lparr>calls := [GetObject ''qsl/sent.json'',
                                             GetObject ''qsl/received.json'']\<rparr>"]
    l1 l2 stats_docs_wellformed
  obtain g where g: "getStats scenario_env (3, 4, 5) stats_store
            = (Inr g, stats_store\<lparr>calls := [GetObject ''qsl/sent.json'',
                                               GetObject ''qsl/received.json'']\<rparr>)"
      "received g = length ?r" "sent g = length ?s"
      "pending g = length (filter (\<lambda>c. field ''status'' c = JStr ''pending'') ?s)"
      "countries g = card (country_codes scenario_env (?s @ ?r))"
      "eyeQso g = length (filter (mode_is scenario_env ''eye'') (?s @ ?r))"
    by blast
  from g stats_docs_counts have first:
    "\<exists>g. getStats scenario_env (3, 4, 5) stats_store
            = (Inr g, stats_store\<lparr>calls := [GetObject ''qsl/sent.json'',
                                               GetObject ''qsl/received.json'']\<rparr>)
        \<and> received g = 1 \<and> sent g = 1 \<and> pending g = 1 \<and> countries g = 2 \<and> eyeQso g = 1"
    by (intro exI [of _ g]) simp
  from t [where st = calls_store and s = ?s' and r = ?r'
      and ?st1.0 = "calls_store\<lparr>calls := [GetObject ''qsl/sent.json'']\<rparr>"
      and ?st2.0 = "calls_store\<lparr>calls := [GetObject ''qsl/sent.json'',
                                             GetObject ''qsl/received.json'']\<rparr>"]
    l3 l4 calls_docs_wellformed
  obtain g' where g': "getStats scenario_env (3, 4, 5) calls_store
            = (Inr g', calls_store\<lparr>calls := [GetObject ''qsl/sent.json'',
                                               GetObject ''qsl/received.json'']\<rparr>)"
      "received g' = length ?r'" "sent g' = length ?s'"
      "pending g' = length (filter (\<lambda>c. field ''status'' c = JStr ''pending'') ?s')"
      "countries g' = card (country_codes scenario_env (?s' @ ?r'))"
      "eyeQso g' = length (filter (mode_is scenario_env ''eye'') (?s' @ ?r'))"
    by blast
  from g' calls_docs_counts have second:
    "\<exists>g. getStats scenario_env (3, 4, 5) calls_store
            = (Inr g, calls_store\<lparr>calls := [GetObject ''qsl/sent.json'',
                                               GetObject ''qsl/received.json'']\<rparr>)
        \<and> received g = 3 \<and> sent g = 3 \<and> pending g = 1 \<and> countries g = 3 \<and> eyeQso g = 2"
    by (intro exI [of _ g']) simp
  from first second l1 l2 l3 l4 stats_docs_wellformed show ?thesis
    by (simp add: calls_sent_doc_def calls_received_doc_def)
qed

text \<open>
  Claim C7 as it is stated counts the distinct codes of the call signs of both
  collections. \<^verbatim>\<open>getStats\<close> leaves out a card whose call sign is empty, by the guard
  \<^verbatim>\<open>if (card.callSign)\<close>: for a sent collection of one card with the empty call sign
  it returns no country, where the call signs of the collection have one code, the empty
  one. For a sent collection of one card that has a number for a call sign, \<^verbatim>\<open>getStats\<close>
  returns nothing: it ends with a \<^verbatim>\<open>TypeError\<close>.
\<close>

theorem getStats_countries_counterexample:
  "getStats scenario_env (3, 4, 5) unsigned_store
     = (Inr \<lparr>received = 0, sent = 1, pending = 0, countries = 0, eyeQso = 0,
             receivedGrowth = 4, sentGrowth = 5, countryGrowth = 6\<rparr>,
        unsigned_store\<lparr>calls := [GetObject ''qsl/sent.json'', GetObject ''qsl/received.json'']\<rparr>)
   \<and> card (country_codes_of_all scenario_env
             ([JObj [(''callSign'', JStr []), (''mode'', JStr ''CW'')]] @ [])) = 1
   \<and> fst (getStats scenario_env (3, 4, 5) numbered_store) = Inl TypeError"
proof -
  have t': "trim numbered_text = numbered_text" "numbered_text \<noteq> []"
    "scenario_parse numbered_text = Inr numbered_doc"
    by code_simp+
  have l1': "readFromCos scenario_env ''qsl/sent.json'' numbered_store
     = (Inr numbered_doc, numbered_store\<lparr>calls := [GetObject ''qsl/sent.json'']\<rparr>)"
    using t'
    by (simp add: readFromCos_def getObject_def next_fault_def numbered_store_def store_of_def
        scenario_env_def)
  have l2': "readFromCos scenario_env ''qsl/received.json''
       (numbered_store\<lparr>calls := [GetObject ''qsl/sent.json'']\<rparr>)
     = (Inr (JArr []),
        numbered_store\<lparr>calls := [GetObject ''qsl/sent.json'', GetObject ''qsl/received.json'']\<rparr>)"
    by (simp add: readFromCos_def getObject_def next_fault_def numbered_store_def store_of_def
        read_catch_def no_such_key_def)
  have s': "stats_of scenario_env numbered_doc (JArr []) (3, 4, 5) = Inl TypeError"
    by code_simp
  from l1' l2' s' have n: "fst (getStats scenario_env (3, 4, 5) numbered_store) = Inl TypeError"
    by (simp add: getStats_def scenario_keys)
  have t: "trim unsigned_text = unsigned_text" "unsigned_text \<noteq> []"
    "scenario_parse unsigned_text = Inr unsigned_doc"
    by code_simp+
  have l1: "readFromCos scenario_env ''qsl/sent.json'' unsigned_store
     = (Inr unsigned_doc, unsigned_store\<lparr>calls := [GetObject ''qsl/sent.json'']\<rparr>)"
    using t
    by (simp add: readFromCos_def getObject_def next_fault_def unsigned_store_def store_of_def
        scenario_env_def)
  have l2: "readFromCos scenario_env ''qsl/received.json''
       (unsigned_store\<lparr>calls := [GetObject ''qsl/sent.json'']\<rparr>)
     = (Inr (JArr []),
        unsigned_store\<lparr>calls := [GetObject ''qsl/sent.json'', GetObject ''qsl/received.json'']\<rparr>)"
    by (simp add: readFromCos_def getObject_def next_fault_def unsigned_store_def store_of_def
        read_catch_def no_such_key_def)
  have s: "stats_of scenario_env unsigned_doc (JArr []) (3, 4, 5)
     = Inr \<lparr>received = 0, sent = 1, pending = 0, countries = 0, eyeQso = 0,
             receivedGrowth = 4, sentGrowth = 5, countryGrowth = 6\<rparr>"
    by code_simp
  have c: "card (country_codes_of_all scenario_env
             ([JObj [(''callSign'', JStr []), (''mode'', JStr ''CW'')]] @ [])) = 1"
    by code_simp
  from l1 l2 s c n show ?thesis
    by (simp add: getStats_def scenario_keys)
qed

section \<open>Properties of the validator\<close>

lemma opt_call_trim_typed:
  "string_or_absent v \<Longrightarrow> \<exists>w. opt_call trim v = Inr w \<and> (truthy w \<longleftrightarrow> nonblank_string v)"
  by (auto simp: string_or_absent_def nullish_def nonblank_string_def)

lemma includes_two:
  "array_includes [a, b] v \<longleftrightarrow> v = JStr a \<or> v = JStr b"
  by (cases v) (auto simp: array_includes_def)

lemma push_if_append: "push_if b m es = es @ (if b then [m] else [])"
  by (simp add: push_if_def)

lemma not_if_True: "(\<not> (if p then q else True)) = (p \<and> \<not> q)"
  by simp

lemma map_filter_Cons_if:
  "map f (filter P (x # xs)) = (if P x then [f x] else []) @ map f (filter P xs)"
  by simp

lemma validateCardData_rules:
  assumes "text_fields_typed c"
  shows "validateCardData c isSentCard
     = (if broken_rules truthy converted_text c isSentCard = [] then Inr ()
        else Inl (QslError (msg_validation_failed
                    @ join ''; '' (map (rule_message isSentCard) (broken_rules truthy converted_text c isSentCard)))
                  2001 400))"
proof -
  from assms have n: "\<not> nullish c" by (simp add: text_fields_typed_def)
  from assms obtain w1 where w1: "opt_call trim (field ''callSign'' c) = Inr w1"
      "truthy w1 \<longleftrightarrow> nonblank_string (field ''callSign'' c)"
    using opt_call_trim_typed [of "field ''callSign'' c"] by (auto simp: text_fields_typed_def)
  from assms obtain w2 where w2: "opt_call trim (field ''myCallSign'' c) = Inr w2"
      "truthy w2 \<longleftrightarrow> nonblank_string (field ''myCallSign'' c)"
    using opt_call_trim_typed [of "field ''myCallSign'' c"] by (auto simp: text_fields_typed_def)
  from assms obtain w3 where w3: "opt_call trim (field ''mode'' c) = Inr w3"
      "truthy w3 \<longleftrightarrow> nonblank_string (field ''mode'' c)"
    using opt_call_trim_typed [of "field ''mode'' c"] by (auto simp: text_fields_typed_def)
  define errors where "errors =
     push_if (\<not> isSentCard \<and> truthy (field ''status'' c)
                \<and> \<not> array_includes [''received'', ''verified''] (field ''status'' c))
       msg_received_status
      (push_if (isSentCard \<and> \<not> array_includes [''pending'', ''sent''] (field ''status'' c))
         msg_sent_status
        (push_if (\<not> array_includes [''online'', ''physical''] (field ''cardType'' c)) msg_cardType
          (push_if (\<not> truthy w3) msg_mode
            (push_if (\<not> date_pattern (to_string (field ''date'' c))) msg_date
              (push_if (\<not> truthy w2) msg_myCallSign
                (push_if (\<not> truthy w1) msg_callSign []))))))"
  have run: "validateCardData c isSentCard
      = (if length errors > 0 then
           Inl (QslError (msg_validation_failed @ join ''; '' errors) 2001 400)
         else Inr ())"
    unfolding errors_def
    by (simp add: validateCardData_def get_prop_field [OF n] bindE_def w1(1) w2(1) w3(1) Let_def
        split del: if_split)
  have list: "errors = map (rule_message isSentCard) (broken_rules truthy converted_text c isSentCard)"
    unfolding errors_def broken_rules_def rules_def
    by (cases isSentCard)
       (simp_all only: push_if_append map_filter_Cons_if w1(2) w2(2) w3(2) converted_text_def option.case includes_two
          rule_holds.simps rule_message.simps append_Nil append_Nil2 append_assoc
          filter.simps(1) list.map(1) not_if_True simp_thms if_True if_False not_not)
  from run list show ?thesis by simp
qed

lemma rule_in_rules: "r \<in> set rules"
  by (cases r) (simp_all add: rules_def)




lemma broken_rules_Nil: "broken_rules present text_of c isSentCard = [] \<longleftrightarrow> (\<forall>r. rule_holds present text_of c isSentCard r)"
  by (auto simp: broken_rules_def filter_empty_conv rule_in_rules)




section \<open>Properties of saveCard\<close>

subsection \<open>The record that is stored\<close>

lemma validate_object:
  assumes "validateCardData p isSentCard = Inr ()"
  shows "\<exists>kvs. p = JObj kvs"
proof (rule ccontr)
  assume no: "\<nexists>kvs. p = JObj kvs"
  have n: "\<not> nullish p"
  proof
    assume "nullish p"
    then have "validateCardData p isSentCard = Inl TypeError"
      by (auto simp: nullish_def validateCardData_def bindE_def)
    with assms show False by simp
  qed
  from no have f: "field k p = JUndefined" for k
    by (cases p) (simp_all add: field_def)
  from n f have "text_fields_typed p"
    by (simp add: text_fields_typed_def string_or_absent_def nullish_def)
  from validateCardData_rules [OF this, of isSentCard] assms
  have "broken_rules truthy converted_text p isSentCard = []"
    by (simp split: if_splits)
  then have "\<forall>r. rule_holds truthy converted_text p isSentCard r"
    by (rule iffD1 [OF broken_rules_Nil])
  then have "rule_holds truthy converted_text p isSentCard Rule_cardType" by (rule spec)
  with f show False by simp
qed

lemma map_of_absent: "k \<notin> fst ` set kvs \<Longrightarrow> map_of kvs k = None"
  by (simp add: map_of_eq_None_iff)

lemma map_of_present: "(k, v) \<in> set kvs \<Longrightarrow> map_of kvs k \<noteq> None"
proof -
  assume "(k, v) \<in> set kvs"
  then have "k \<in> fst ` set kvs" by force
  then show ?thesis by (simp add: map_of_eq_None_iff)
qed

lemma map_of_assign:
  "distinct (map fst kvs) \<Longrightarrow> map_of (assign obj kvs) = map_of obj ++ map_of kvs"
proof (induction kvs arbitrary: obj)
  case Nil
  then show ?case by (simp add: assign_def)
next
  case (Cons kv kvs)
  obtain k v where kv: "kv = (k, v)" by (cases kv)
  from Cons.prems kv have k: "k \<notin> fst ` set kvs" and d: "distinct (map fst kvs)"
    by auto
  have "map_of (assign obj (kv # kvs)) = map_of (assign (AList.update k v obj) kvs)"
    by (simp add: assign_def kv)
  also have "\<dots> = map_of (AList.update k v obj) ++ map_of kvs"
    by (rule Cons.IH [OF d])
  also have "\<dots> = (map_of obj)(k \<mapsto> v) ++ map_of kvs"
    by (simp only: update_conv')
  also from k have "\<dots> = map_of obj ++ map_of (kv # kvs)"
    by (auto simp: kv map_add_def fun_eq_iff map_of_absent split: option.splits)
  finally show ?case .
qed

lemma new_card_field:
  "field k (new_card uuid t1 t2 (JObj kvs))
     = (if k = ''updatedAt'' then JStr (toISOString t2)
        else if k = ''createdAt'' then JStr (toISOString t1)
        else (case map_of kvs k of
                Some v \<Rightarrow> v
              | None \<Rightarrow> if k = ''id'' then JStr uuid else JUndefined))"
proof -
  have "map_of (assign (assign [(''id'', JStr uuid)] (AList.clearjunk kvs))
                  [(''createdAt'', JStr (toISOString t1)), (''updatedAt'', JStr (toISOString t2))]) k
      = (([''id'' \<mapsto> JStr uuid] ++ map_of kvs)
           ++ [''createdAt'' \<mapsto> JStr (toISOString t1), ''updatedAt'' \<mapsto> JStr (toISOString t2)]) k"
    by (simp add: map_of_assign map_of_clearjunk)
  then show ?thesis
    by (auto simp: field_def new_card_def own_properties_def map_add_def split: option.splits)
qed

lemma new_card_id:
  "field ''id'' (new_card uuid t1 t2 (JObj kvs))
     = (if has_own ''id'' (JObj kvs) then field ''id'' (JObj kvs) else JStr uuid)"
  by (simp add: new_card_field)
     (auto simp: has_own_def field_def map_of_absent dest: map_of_SomeD map_of_present
        split: option.splits)

subsection \<open>A save that the store serves\<close>

lemma findIndex_total:
  "list_all (\<lambda>c. \<not> nullish c) xs \<Longrightarrow>
     findIndex (\<lambda>c. bindE (get_prop c k) (\<lambda>i. Inr (P i))) xs
       = Inr (first_index (\<lambda>c. P (field k c)) xs)"
  by (induction xs) (simp_all add: get_prop_field bindE_def)

lemma bindE_simps: "bindE (Inr x) f = f x" "bindE (Inl e) f = Inl e"
  by (simp_all add: bindE_def)

lemma put_card_total:
  "list_all (\<lambda>c. \<not> nullish c) xs \<Longrightarrow> \<not> nullish c \<Longrightarrow>
     put_card (JArr xs) c = Inr (upserted xs c)"
  by (simp add: put_card_def get_prop_field bindE_simps findIndex_total upserted_def
      split: option.splits)

lemma writeToCos_served:
  "next_fault st = None \<Longrightarrow>
     writeToCos E key (JArr xs) st
       = (Inr (), st\<lparr>faults := tl (faults st),
                      calls := calls st @ [PutObject key (json_stringify E (JArr xs))],
                      objects := (objects st)(key \<mapsto> json_stringify E (JArr xs))\<rparr>)"
  by (simp add: writeToCos_def putObject_def)

lemma saveCard_served:
  assumes "validateCardData p isSentCard = Inr ()"
    and "readFromCos E (path_of E isSentCard) st = (Inr (JArr xs), st1)"
    and "list_all (\<lambda>c. \<not> nullish c) xs"
    and "next_fault st1 = None"
  shows "saveCard E uuid t1 t2 p isSentCard st
     = (Inr (new_card uuid t1 t2 p),
        st1\<lparr>faults := tl (faults st1),
            calls := calls st1 @ [PutObject (path_of E isSentCard)
               (json_stringify E (JArr (upserted xs (new_card uuid t1 t2 p))))],
            objects := (objects st1)(path_of E isSentCard \<mapsto>
               json_stringify E (JArr (upserted xs (new_card uuid t1 t2 p))))\<rparr>)"
  using assms
  by (simp add: saveCard_def Let_def put_card_total new_card_not_nullish writeToCos_served)

lemma readFromCos_served:
  "next_fault st = None \<Longrightarrow> objects st key = Some body \<Longrightarrow> trim body \<noteq> [] \<Longrightarrow>
     json_parse E (trim body) = Inr v \<Longrightarrow>
     readFromCos E key st = (Inr v, st\<lparr>faults := tl (faults st), calls := calls st @ [GetObject key]\<rparr>)"
  by (simp add: readFromCos_def getObject_def)

subsection \<open>Counting the entries that have an id\<close>

lemma js_distinct_count:
  "js_distinct vs \<Longrightarrow> primitive v \<Longrightarrow> length (filter (\<lambda>x. x = v) vs) \<le> 1"
proof (induction vs)
  case Nil
  then show ?case by simp
next
  case (Cons a vs)
  show ?case
  proof (cases "a = v")
    case True
    with Cons.prems have "list_all (\<lambda>y. y \<noteq> v) vs"
      by (auto simp: list_all_iff strict_eq_primitive)
    then have "filter (\<lambda>x. x = v) vs = []"
      by (simp add: list_all_iff filter_empty_conv)
    with True show ?thesis by simp
  next
    case False
    with Cons show ?thesis by simp
  qed
qed

lemma count_ids: "length (filter (\<lambda>x. field ''id'' x = v) xs) = length (filter (\<lambda>i. i = v) (ids xs))"
  by (induction xs) (simp_all add: ids_def)

lemma filter_update_same:
  "i < length xs \<Longrightarrow> P (xs ! i) = P c \<Longrightarrow> length (filter P (xs[i := c])) = length (filter P xs)"
proof (induction xs arbitrary: i)
  case Nil
  then show ?case by simp
next
  case (Cons x xs)
  then show ?case by (cases i) simp_all
qed

lemma filter_has: "x \<in> set xs \<Longrightarrow> P x \<Longrightarrow> 1 \<le> length (filter P xs)"
  by (induction xs) auto

lemma upserted_one:
  assumes "js_distinct (ids xs)" and "primitive (field ''id'' c)"
  shows "length (filter (\<lambda>x. field ''id'' x = field ''id'' c) (upserted xs c)) = 1"
proof (cases "first_index (\<lambda>x. strict_eq (field ''id'' x) (field ''id'' c)) xs")
  case None
  then have "list_all (\<lambda>x. \<not> strict_eq (field ''id'' x) (field ''id'' c)) xs"
    by (simp add: first_index_None)
  with assms(2) have "filter (\<lambda>x. field ''id'' x = field ''id'' c) xs = []"
    by (simp add: list_all_iff filter_empty_conv strict_eq_primitive_right)
  with None show ?thesis by (simp add: upserted_def)
next
  case (Some i)
  from first_index_Some [OF Some] have i: "i < length xs"
    and m: "strict_eq (field ''id'' (xs ! i)) (field ''id'' c)" by simp_all
  from m have e: "field ''id'' (xs ! i) = field ''id'' c" by (rule strict_eq_eq)
  from i e have "1 \<le> length (filter (\<lambda>x. field ''id'' x = field ''id'' c) xs)"
    by (intro filter_has [of "xs ! i"]) simp_all
  moreover from js_distinct_count [OF assms] have
    "length (filter (\<lambda>x. field ''id'' x = field ''id'' c) xs) \<le> 1"
    by (simp add: count_ids)
  ultimately have "length (filter (\<lambda>x. field ''id'' x = field ''id'' c) xs) = 1"
    by linarith
  with i e Some show ?thesis
    by (simp add: upserted_def filter_update_same)
qed

subsection \<open>Replacing an entry\<close>

lemma first_index_eq:
  "i < length xs \<Longrightarrow> P (xs ! i) \<Longrightarrow> \<forall>j<i. \<not> P (xs ! j) \<Longrightarrow> first_index P xs = Some i"
proof (induction xs arbitrary: i)
  case Nil
  then show ?case by simp
next
  case (Cons x xs)
  show ?case
  proof (cases i)
    case 0
    with Cons.prems show ?thesis by simp
  next
    case (Suc k)
    with Cons.prems have "\<not> P x" by auto
    moreover from Suc Cons.prems have "first_index P xs = Some k"
      by (intro Cons.IH) auto
    ultimately show ?thesis using Suc by simp
  qed
qed

lemma field_object: "field k (JObj kvs) = (case map_of kvs k of Some v \<Rightarrow> v | None \<Rightarrow> JUndefined)"
  by (simp add: field_def)

lemma new_card_keeps_payload:
  assumes "has_own ''id'' (JObj kvs)" and "k \<noteq> ''createdAt''" and "k \<noteq> ''updatedAt''"
  shows "field k (new_card uuid t1 t2 (JObj kvs)) = field k (JObj kvs)"
proof (cases "k = ''id''")
  case True
  with assms(1) show ?thesis by (simp add: new_card_id)
next
  case False
  with assms(2,3) show ?thesis
    by (simp add: new_card_field field_object split: option.splits)
qed

text \<open>
  Claim C10, as amended. When the payload carries the id of an entry of the collection,
  \<^verbatim>\<open>saveCard\<close> puts in the place of the first such entry a record that is built from the
  payload and the clock alone: \<^verbatim>\<open>createdAt\<close> is the first reading of the clock and
  \<^verbatim>\<open>updatedAt\<close> the second, whatever the entry or the payload had there, so the two are
  equal when both readings are the same; every other field is the payload's, and a field
  that the payload does not have is undefined in the record, whatever the old entry had.
\<close>

theorem saveCard_replaces_entry:
  "validateCardData p isSentCard = Inr () \<and> has_own ''id'' p
   \<and> readFromCos E (path_of E isSentCard) st = (Inr (JArr xs), st1)
   \<and> list_all (\<lambda>c. \<not> nullish c) xs \<and> next_fault st1 = None
   \<and> i < length xs \<and> strict_eq (field ''id'' (xs ! i)) (field ''id'' p)
   \<and> (\<forall>j<i. \<not> strict_eq (field ''id'' (xs ! j)) (field ''id'' p)) \<longrightarrow>
   fst (saveCard E uuid t1 t2 p isSentCard st) = Inr (new_card uuid t1 t2 p)
   \<and> objects (snd (saveCard E uuid t1 t2 p isSentCard st)) (path_of E isSentCard)
       = Some (json_stringify E (JArr (xs[i := new_card uuid t1 t2 p])))
   \<and> field ''createdAt'' (new_card uuid t1 t2 p) = JStr (toISOString t1)
   \<and> field ''updatedAt'' (new_card uuid t1 t2 p) = JStr (toISOString t2)
   \<and> (t1 = t2 \<longrightarrow>
        field ''createdAt'' (new_card uuid t1 t2 p) = field ''updatedAt'' (new_card uuid t1 t2 p))
   \<and> (\<forall>k. k \<noteq> ''createdAt'' \<and> k \<noteq> ''updatedAt'' \<longrightarrow>
        field k (new_card uuid t1 t2 p) = field k p)"
proof
  assume h: "validateCardData p isSentCard = Inr () \<and> has_own ''id'' p
   \<and> readFromCos E (path_of E isSentCard) st = (Inr (JArr xs), st1)
   \<and> list_all (\<lambda>c. \<not> nullish c) xs \<and> next_fault st1 = None
   \<and> i < length xs \<and> strict_eq (field ''id'' (xs ! i)) (field ''id'' p)
   \<and> (\<forall>j<i. \<not> strict_eq (field ''id'' (xs ! j)) (field ''id'' p))"
  let ?c = "new_card uuid t1 t2 p"
  from h obtain kvs where p: "p = JObj kvs"
    using validate_object by blast
  from h p have id: "field ''id'' ?c = field ''id'' p"
    by (simp add: new_card_id)
  from h id have "first_index (\<lambda>x. strict_eq (field ''id'' x) (field ''id'' ?c)) xs = Some i"
    by (intro first_index_eq) simp_all
  then have up: "upserted xs ?c = xs[i := ?c]"
    by (simp add: upserted_def)
  from h have save: "saveCard E uuid t1 t2 p isSentCard st
     = (Inr ?c,
        st1\<lparr>faults := tl (faults st1),
            calls := calls st1 @ [PutObject (path_of E isSentCard)
               (json_stringify E (JArr (upserted xs ?c)))],
            objects := (objects st1)(path_of E isSentCard \<mapsto>
               json_stringify E (JArr (upserted xs ?c)))\<rparr>)"
    by (intro saveCard_served) simp_all
  have ts: "field ''createdAt'' ?c = JStr (toISOString t1)"
    "field ''updatedAt'' ?c = JStr (toISOString t2)"
    by (simp_all add: p new_card_field)
  from h p have rest: "\<forall>k. k \<noteq> ''createdAt'' \<and> k \<noteq> ''updatedAt'' \<longrightarrow> field k ?c = field k p"
    by (simp add: new_card_keeps_payload)
  have eq: "t1 = t2 \<longrightarrow> field ''createdAt'' ?c = field ''updatedAt'' ?c"
    unfolding ts by simp
  from save up have ret: "fst (saveCard E uuid t1 t2 p isSentCard st) = Inr ?c"
    and blob: "objects (snd (saveCard E uuid t1 t2 p isSentCard st)) (path_of E isSentCard)
       = Some (json_stringify E (JArr (xs[i := ?c])))"
    by simp_all
  from ret blob ts eq rest
  show "fst (saveCard E uuid t1 t2 p isSentCard st) = Inr ?c
   \<and> objects (snd (saveCard E uuid t1 t2 p isSentCard st)) (path_of E isSentCard)
       = Some (json_stringify E (JArr (xs[i := ?c])))
   \<and> field ''createdAt'' ?c = JStr (toISOString t1)
   \<and> field ''updatedAt'' ?c = JStr (toISOString t2)
   \<and> (t1 = t2 \<longrightarrow> field ''createdAt'' ?c = field ''updatedAt'' ?c)
   \<and> (\<forall>k. k \<noteq> ''createdAt'' \<and> k \<noteq> ''updatedAt'' \<longrightarrow> field k ?c = field k p)"
    by blast
qed


lemma card_updated_fields:
  "field ''createdAt'' card_updated = JStr ''2024-02-01T00:00:00.000Z''"
  "field ''updatedAt'' card_updated = JStr ''2024-02-01T00:00:00.001Z''"
  "field ''note'' card_updated = JUndefined"
  "field ''cardType'' card_updated = JStr ''physical''"
  by (simp_all add: card_updated_def field_def)

lemma card_a1_fields:
  "field ''id'' card_a1 = JStr ''a1''"
  "field ''createdAt'' card_a1 = JStr ''2024-01-15T08:00:00.000Z''"
  "field ''note'' card_a1 = JStr ''first contact''"
  by (simp_all add: card_a1_def field_def)

lemma payload_update_fields:
  "has_own ''id'' payload_update" "field ''id'' payload_update = JStr ''a1''"
  "field ''note'' payload_update = JUndefined"
  by (simp_all add: payload_update_def field_def has_own_def)

theorem saveCard_replaces_entry_witness:
  "validateCardData payload_update True = Inr () \<and> has_own ''id'' payload_update
   \<and> readFromCos scenario_env (path_of scenario_env True) cards_store
       = (Inr (JArr [card_a1]), cards_store\<lparr>calls := [GetObject ''qsl/sent.json'']\<rparr>)
   \<and> list_all (\<lambda>c. \<not> nullish c) [card_a1]
   \<and> next_fault (cards_store\<lparr>calls := [GetObject ''qsl/sent.json'']\<rparr>) = None
   \<and> strict_eq (field ''id'' ([card_a1] ! 0)) (field ''id'' payload_update)
   \<and> fst (saveCard scenario_env fresh_uuid clock1 clock1 payload_update True cards_store)
       = Inr (new_card fresh_uuid clock1 clock1 payload_update)
   \<and> objects (snd (saveCard scenario_env fresh_uuid clock1 clock1 payload_update True cards_store))
         ''qsl/sent.json''
       = Some (json_stringify scenario_env
                 (JArr [new_card fresh_uuid clock1 clock1 payload_update]))
   \<and> field ''createdAt'' (new_card fresh_uuid clock1 clock1 payload_update)
       = field ''updatedAt'' (new_card fresh_uuid clock1 clock1 payload_update)
   \<and> field ''createdAt'' (new_card fresh_uuid clock1 clock1 payload_update)
       = JStr ''2024-02-01T00:00:00.000Z''
   \<and> field ''createdAt'' card_a1 = JStr ''2024-01-15T08:00:00.000Z''
   \<and> field ''note'' card_a1 = JStr ''first contact''
   \<and> field ''note'' (new_card fresh_uuid clock1 clock1 payload_update) = JUndefined"
proof -
  let ?st1 = "cards_store\<lparr>calls := [GetObject ''qsl/sent.json'']\<rparr>"
  have l: "readFromCos scenario_env (path_of scenario_env True) cards_store
       = (Inr (JArr [card_a1]), ?st1)"
    by (simp add: scenario_paths load_cards_store cards_doc_def)
  have n1: "list_all (\<lambda>c. \<not> nullish c) [card_a1]"
    by (simp add: nullish_def card_a1_def)
  have n2: "next_fault ?st1 = None"
    by (simp add: next_fault_def cards_store_fields)
  have n3: "strict_eq (field ''id'' ([card_a1] ! 0)) (field ''id'' payload_update)"
    by (simp add: card_a1_fields payload_update_fields)
  note n = n1 n2 n3
  from saveCard_replaces_entry [where p = payload_update and isSentCard = True
      and E = scenario_env and st = cards_store and xs = "[card_a1]" and ?st1.0 = ?st1
      and i = 0 and uuid = fresh_uuid and ?t1.0 = clock1 and ?t2.0 = clock1]
    validate_payload_update payload_update_fields l n
  have r: "fst (saveCard scenario_env fresh_uuid clock1 clock1 payload_update True cards_store)
       = Inr (new_card fresh_uuid clock1 clock1 payload_update)"
    "objects (snd (saveCard scenario_env fresh_uuid clock1 clock1 payload_update True cards_store))
         (path_of scenario_env True)
       = Some (json_stringify scenario_env
                 (JArr ([card_a1][0 := new_card fresh_uuid clock1 clock1 payload_update])))"
    "field ''createdAt'' (new_card fresh_uuid clock1 clock1 payload_update)
       = JStr (toISOString clock1)"
    "field ''createdAt'' (new_card fresh_uuid clock1 clock1 payload_update)
       = field ''updatedAt'' (new_card fresh_uuid clock1 clock1 payload_update)"
    "field ''note'' (new_card fresh_uuid clock1 clock1 payload_update)
       = field ''note'' payload_update"
    by simp_all
  have iso: "toISOString clock1 = ''2024-02-01T00:00:00.000Z''"
    by code_simp
  from r iso l n validate_payload_update payload_update_fields card_a1_fields
  show ?thesis
    by (simp add: scenario_paths)
qed

text \<open>
  Claim C10 as it is stated fails where the clock moves on between the two readings: with
  the readings a millisecond apart, the \<^verbatim>\<open>createdAt\<close> of the record that replaces the
  card \<^verbatim>\<open>a1\<close> is not its \<^verbatim>\<open>updatedAt\<close>.
\<close>

theorem saveCard_timestamps_counterexample:
  "field ''id'' card_a1 = field ''id'' payload_update
   \<and> fst (saveCard scenario_env fresh_uuid clock1 clock2 payload_update True cards_store)
       = Inr card_updated
   \<and> field ''createdAt'' card_updated = JStr ''2024-02-01T00:00:00.000Z''
   \<and> field ''updatedAt'' card_updated = JStr ''2024-02-01T00:00:00.001Z''
   \<and> field ''createdAt'' card_updated \<noteq> field ''updatedAt'' card_updated"
  by (simp add: save_update card_updated_fields card_a1_fields payload_update_fields)

subsection \<open>Saving and loading again\<close>

lemma upserted_cases:
  "(list_ex (\<lambda>x. strict_eq (field ''id'' x) (field ''id'' c)) xs \<longrightarrow>
      (\<exists>i<length xs. upserted xs c = xs[i := c]
         \<and> strict_eq (field ''id'' (xs ! i)) (field ''id'' c)
         \<and> (\<forall>j<i. \<not> strict_eq (field ''id'' (xs ! j)) (field ''id'' c))))
   \<and> (\<not> list_ex (\<lambda>x. strict_eq (field ''id'' x) (field ''id'' c)) xs \<longrightarrow>
      upserted xs c = xs @ [c])"
proof (cases "first_index (\<lambda>x. strict_eq (field ''id'' x) (field ''id'' c)) xs")
  case None
  then have "\<not> list_ex (\<lambda>x. strict_eq (field ''id'' x) (field ''id'' c)) xs"
    by (simp add: first_index_None list_all_iff list_ex_iff)
  with None show ?thesis by (simp add: upserted_def)
next
  case (Some i)
  from first_index_Some [OF Some] have i: "i < length xs"
    "strict_eq (field ''id'' (xs ! i)) (field ''id'' c)"
    "\<forall>j<i. \<not> strict_eq (field ''id'' (xs ! j)) (field ''id'' c)"
    by simp_all
  then have "list_ex (\<lambda>x. strict_eq (field ''id'' x) (field ''id'' c)) xs"
    by (auto simp: list_ex_iff)
  with Some i show ?thesis by (auto simp: upserted_def)
qed

lemma upserted_member: "c \<in> set (upserted xs c)"
proof (cases "first_index (\<lambda>x. strict_eq (field ''id'' x) (field ''id'' c)) xs")
  case None
  then show ?thesis by (simp add: upserted_def)
next
  case (Some i)
  from first_index_Some [OF Some] have "i < length xs" by simp
  with Some show ?thesis by (simp add: upserted_def set_update_memI)
qed

text \<open>
  Claim C1, as amended. For a valid payload, a loaded collection of cards and a store that
  serves the write, \<^verbatim>\<open>saveCard\<close> returns the record it stores: the payload with its own
  id when it carries one and with the generated id otherwise, \<^verbatim>\<open>createdAt\<close> set to the
  first reading of the clock and \<^verbatim>\<open>updatedAt\<close> to the second. When an entry has the id of
  the record, the first such entry is replaced where it stands; when none has it, the record
  is appended. The resulting collection is written to the blob. A load that follows, the
  codec giving back what it wrote, returns that collection; it holds the record, and holds
  exactly one entry with the record's id when the ids of the loaded collection were pairwise
  distinct and the id is a primitive value. \<^verbatim>\<open>updatedAt\<close> is not earlier than
  \<^verbatim>\<open>createdAt\<close> when the clock did not go back between the two readings.
\<close>

theorem saveCard_upsert:
  "validateCardData p isSentCard = Inr ()
   \<and> readFromCos E (path_of E isSentCard) st = (Inr (JArr xs), st1)
   \<and> list_all (\<lambda>c. \<not> nullish c) xs \<and> next_fault st1 = None \<longrightarrow>
   fst (saveCard E uuid t1 t2 p isSentCard st) = Inr (new_card uuid t1 t2 p)
   \<and> objects (snd (saveCard E uuid t1 t2 p isSentCard st))
       = (objects st)(path_of E isSentCard \<mapsto>
            json_stringify E (JArr (upserted xs (new_card uuid t1 t2 p))))
   \<and> field ''id'' (new_card uuid t1 t2 p)
       = (if has_own ''id'' p then field ''id'' p else JStr uuid)
   \<and> field ''createdAt'' (new_card uuid t1 t2 p) = JStr (toISOString t1)
   \<and> field ''updatedAt'' (new_card uuid t1 t2 p) = JStr (toISOString t2)
   \<and> (t1 \<le> t2 \<longrightarrow>
        (\<exists>a b. a \<le> b \<and> field ''createdAt'' (new_card uuid t1 t2 p) = JStr (toISOString a)
           \<and> field ''updatedAt'' (new_card uuid t1 t2 p) = JStr (toISOString b)))
   \<and> (list_ex (\<lambda>x. strict_eq (field ''id'' x) (field ''id'' (new_card uuid t1 t2 p))) xs \<longrightarrow>
        (\<exists>i<length xs. upserted xs (new_card uuid t1 t2 p) = xs[i := new_card uuid t1 t2 p]
           \<and> strict_eq (field ''id'' (xs ! i)) (field ''id'' (new_card uuid t1 t2 p))
           \<and> (\<forall>j<i. \<not> strict_eq (field ''id'' (xs ! j)) (field ''id'' (new_card uuid t1 t2 p)))))
   \<and> (\<not> list_ex (\<lambda>x. strict_eq (field ''id'' x) (field ''id'' (new_card uuid t1 t2 p))) xs \<longrightarrow>
        upserted xs (new_card uuid t1 t2 p) = xs @ [new_card uuid t1 t2 p])
   \<and> (round_trips E (JArr (upserted xs (new_card uuid t1 t2 p)))
        \<and> next_fault (snd (saveCard E uuid t1 t2 p isSentCard st)) = None \<longrightarrow>
        fst (readFromCos E (path_of E isSentCard) (snd (saveCard E uuid t1 t2 p isSentCard st)))
          = Inr (JArr (upserted xs (new_card uuid t1 t2 p))))
   \<and> new_card uuid t1 t2 p \<in> set (upserted xs (new_card uuid t1 t2 p))
   \<and> (js_distinct (ids xs) \<and> primitive (field ''id'' (new_card uuid t1 t2 p)) \<longrightarrow>
        length (filter (\<lambda>x. field ''id'' x = field ''id'' (new_card uuid t1 t2 p))
                 (upserted xs (new_card uuid t1 t2 p))) = 1)"
proof
  assume h: "validateCardData p isSentCard = Inr ()
   \<and> readFromCos E (path_of E isSentCard) st = (Inr (JArr xs), st1)
   \<and> list_all (\<lambda>c. \<not> nullish c) xs \<and> next_fault st1 = None"
  let ?c = "new_card uuid t1 t2 p"
  let ?path = "path_of E isSentCard"
  let ?text = "json_stringify E (JArr (upserted xs ?c))"
  let ?st2 = "snd (saveCard E uuid t1 t2 p isSentCard st)"
  from h obtain kvs where p: "p = JObj kvs"
    using validate_object by blast
  from h have save: "saveCard E uuid t1 t2 p isSentCard st
     = (Inr ?c, st1\<lparr>faults := tl (faults st1),
                    calls := calls st1 @ [PutObject ?path ?text],
                    objects := (objects st1)(?path \<mapsto> ?text)\<rparr>)"
    by (intro saveCard_served) simp_all
  from h have o1: "objects st1 = objects st"
    by (auto dest: readFromCos_store(1))
  from save have ret: "fst (saveCard E uuid t1 t2 p isSentCard st) = Inr ?c"
    by simp
  from save o1 have blob: "objects ?st2 = (objects st)(?path \<mapsto> ?text)"
    by simp
  have id: "field ''id'' ?c = (if has_own ''id'' p then field ''id'' p else JStr uuid)"
    unfolding p by (rule new_card_id)
  have ts: "field ''createdAt'' ?c = JStr (toISOString t1)"
    "field ''updatedAt'' ?c = JStr (toISOString t2)"
    by (simp_all add: p new_card_field)
  from ts have ord: "t1 \<le> t2 \<longrightarrow>
        (\<exists>a b. a \<le> b \<and> field ''createdAt'' ?c = JStr (toISOString a)
           \<and> field ''updatedAt'' ?c = JStr (toISOString b))"
    by blast
  have reload: "fst (readFromCos E ?path ?st2) = Inr (JArr (upserted xs ?c))"
    if "round_trips E (JArr (upserted xs ?c)) \<and> next_fault ?st2 = None"
  proof -
    from blob have b: "objects ?st2 ?path = Some ?text" by simp
    from that have nf: "next_fault ?st2 = None" and r1: "trim ?text \<noteq> []"
      and r2: "json_parse E (trim ?text) = Inr (JArr (upserted xs ?c))"
      by (simp_all add: round_trips_def)
    from readFromCos_served [OF nf b r1 r2] show ?thesis by simp
  qed
  note cases = upserted_cases [of ?c xs]
  note mem = upserted_member [of ?c xs]
  note one = upserted_one [of xs ?c]
  from ret blob id ts ord reload cases mem one
  show "fst (saveCard E uuid t1 t2 p isSentCard st) = Inr ?c
   \<and> objects ?st2 = (objects st)(?path \<mapsto> ?text)
   \<and> field ''id'' ?c = (if has_own ''id'' p then field ''id'' p else JStr uuid)
   \<and> field ''createdAt'' ?c = JStr (toISOString t1)
   \<and> field ''updatedAt'' ?c = JStr (toISOString t2)
   \<and> (t1 \<le> t2 \<longrightarrow>
        (\<exists>a b. a \<le> b \<and> field ''createdAt'' ?c = JStr (toISOString a)
           \<and> field ''updatedAt'' ?c = JStr (toISOString b)))
   \<and> (list_ex (\<lambda>x. strict_eq (field ''id'' x) (field ''id'' ?c)) xs \<longrightarrow>
        (\<exists>i<length xs. upserted xs ?c = xs[i := ?c]
           \<and> strict_eq (field ''id'' (xs ! i)) (field ''id'' ?c)
           \<and> (\<forall>j<i. \<not> strict_eq (field ''id'' (xs ! j)) (field ''id'' ?c))))
   \<and> (\<not> list_ex (\<lambda>x. strict_eq (field ''id'' x) (field ''id'' ?c)) xs \<longrightarrow>
        upserted xs ?c = xs @ [?c])
   \<and> (round_trips E (JArr (upserted xs ?c)) \<and> next_fault ?st2 = None \<longrightarrow>
        fst (readFromCos E ?path ?st2) = Inr (JArr (upserted xs ?c)))
   \<and> ?c \<in> set (upserted xs ?c)
   \<and> (js_distinct (ids xs) \<and> primitive (field ''id'' ?c) \<longrightarrow>
        length (filter (\<lambda>x. field ''id'' x = field ''id'' ?c) (upserted xs ?c)) = 1)"
    by (intro conjI impI) blast+
qed


lemma upserted_added: "upserted [card_a1] card_added = [card_a1, card_added]"
  by code_simp

lemma round_trips_added: "round_trips scenario_env (JArr [card_a1, card_added])"
  by code_simp

lemma card_added_id: "field ''id'' card_added = JStr fresh_uuid"
  by (simp add: card_added_def fresh_uuid_def field_def)

theorem saveCard_upsert_witness:
  "validateCardData payload_new True = Inr ()
   \<and> readFromCos scenario_env (path_of scenario_env True) cards_store
       = (Inr (JArr [card_a1]), cards_store\<lparr>calls := [GetObject ''qsl/sent.json'']\<rparr>)
   \<and> list_all (\<lambda>c. \<not> nullish c) [card_a1]
   \<and> next_fault (cards_store\<lparr>calls := [GetObject ''qsl/sent.json'']\<rparr>) = None
   \<and> \<not> has_own ''id'' payload_new
   \<and> \<not> list_ex (\<lambda>x. strict_eq (field ''id'' x) (field ''id'' card_added)) [card_a1]
   \<and> round_trips scenario_env (JArr [card_a1, card_added])
   \<and> js_distinct (ids [card_a1]) \<and> primitive (field ''id'' card_added) \<and> clock1 \<le> clock2
   \<and> fst (saveCard scenario_env fresh_uuid clock1 clock2 payload_new True cards_store)
       = Inr card_added
   \<and> field ''id'' card_added = JStr fresh_uuid
   \<and> objects (snd (saveCard scenario_env fresh_uuid clock1 clock2 payload_new True cards_store))
         ''qsl/sent.json''
       = Some (json_stringify scenario_env (JArr [card_a1, card_added]))
   \<and> fst (readFromCos scenario_env ''qsl/sent.json''
              (snd (saveCard scenario_env fresh_uuid clock1 clock2 payload_new True cards_store)))
       = Inr (JArr [card_a1, card_added])
   \<and> length (filter (\<lambda>x. field ''id'' x = JStr fresh_uuid) [card_a1, card_added]) = 1
   \<and> field ''createdAt'' card_added = JStr (toISOString clock1)
   \<and> field ''updatedAt'' card_added = JStr (toISOString clock2)"
proof -
  let ?st1 = "cards_store\<lparr>calls := [GetObject ''qsl/sent.json'']\<rparr>"
  let ?st2 = "snd (saveCard scenario_env fresh_uuid clock1 clock2 payload_new True cards_store)"
  have l: "readFromCos scenario_env (path_of scenario_env True) cards_store
       = (Inr (JArr [card_a1]), ?st1)"
    by (simp add: scenario_paths load_cards_store cards_doc_def)
  have n1: "list_all (\<lambda>c. \<not> nullish c) [card_a1]"
    by (simp add: nullish_def card_a1_def)
  have n2: "next_fault ?st1 = None"
    by (simp add: next_fault_def cards_store_fields)
  have own: "\<not> has_own ''id'' payload_new"
    by (simp add: has_own_def payload_new_def)
  have fresh: "\<not> list_ex (\<lambda>x. strict_eq (field ''id'' x) (field ''id'' card_added)) [card_a1]"
    by (simp add: card_added_id card_a1_fields fresh_uuid_def)
  have d: "js_distinct (ids [card_a1])" "primitive (field ''id'' card_added)" "clock1 \<le> clock2"
    by (simp_all add: ids_def card_a1_fields card_added_id clock1_def clock2_def)
  have served: "next_fault ?st2 = None"
    by (simp add: save_new next_fault_def cards_store_fields)
  note t = saveCard_upsert [where p = payload_new and isSentCard = True and E = scenario_env
      and st = cards_store and xs = "[card_a1]" and ?st1.0 = ?st1 and uuid = fresh_uuid
      and ?t1.0 = clock1 and ?t2.0 = clock2, unfolded new_card_payload_new upserted_added]
  from t validate_payload_new l n1 n2 round_trips_added served d
  have r: "fst (saveCard scenario_env fresh_uuid clock1 clock2 payload_new True cards_store)
       = Inr card_added"
    "objects ?st2 = (objects cards_store)(path_of scenario_env True \<mapsto>
        json_stringify scenario_env (JArr [card_a1, card_added]))"
    "fst (readFromCos scenario_env (path_of scenario_env True) ?st2)
       = Inr (JArr [card_a1, card_added])"
    "length (filter (\<lambda>x. field ''id'' x = field ''id'' card_added) [card_a1, card_added]) = 1"
    "field ''createdAt'' card_added = JStr (toISOString clock1)"
    "field ''updatedAt'' card_added = JStr (toISOString clock2)"
    by blast+
  from r l n1 n2 own fresh d round_trips_added validate_payload_new card_added_id
  show ?thesis
    by (simp add: scenario_paths)
qed

text \<open>
  Claim C1 as it is stated fails for a payload that carries an id which no entry has. The
  claim has the store assign a new id then; the code appends the record under the id of
  the payload, here \<^verbatim>\<open>custom-7\<close>, and the id that was generated is not used.
\<close>

theorem saveCard_payload_id_counterexample:
  "validateCardData payload_custom True = Inr ()
   \<and> \<not> list_ex (\<lambda>x. strict_eq (field ''id'' x) (field ''id'' payload_custom)) [card_a1]
   \<and> fst (saveCard scenario_env fresh_uuid clock1 clock2 payload_custom True cards_store)
       = Inr card_custom
   \<and> field ''id'' card_custom = JStr ''custom-7''
   \<and> field ''id'' card_custom \<noteq> JStr fresh_uuid
   \<and> objects (snd (saveCard scenario_env fresh_uuid clock1 clock2 payload_custom True cards_store))
         ''qsl/sent.json''
       = Some (json_stringify scenario_env (JArr [card_a1, card_custom]))"
proof -
  have a: "field ''id'' payload_custom = JStr ''custom-7''"
    "field ''id'' card_custom = JStr ''custom-7''"
    by (simp_all add: payload_custom_def card_custom_def field_def)
  have b: "JStr ''custom-7'' \<noteq> JStr fresh_uuid"
    by (simp add: fresh_uuid_def)
  have c: "\<not> list_ex (\<lambda>x. strict_eq (field ''id'' x) (field ''id'' payload_custom)) [card_a1]"
    by (simp add: a card_a1_fields)
  from a b c show ?thesis
    by (simp add: validate_payload_custom save_custom stringify_custom)
qed

end
